theory Spec2Isabelle
  imports Main "HOL-Library.Word"
begin

section \<open>Machine integers of the BPF target\<close>

type_synonym u32 = "32 word"
type_synonym u64 = "64 word"

text \<open>
  Unsigned 64-bit division as the BPF target executes it: a zero divisor does not trap,
  the quotient is 0.
\<close>

definition bpf_udiv :: "u64 \<Rightarrow> u64 \<Rightarrow> u64" where
  "bpf_udiv a b = (if b = 0 then 0 else a div b)"

section \<open>cxl\_pmu.bpf.c: data model\<close>

definition MAX_CPUS :: nat where
  "MAX_CPUS = 1024"

definition MOE_VECTORDB_THRESHOLD :: u32 where
  "MOE_VECTORDB_THRESHOLD = 80"

definition BANDWIDTH_THRESHOLD :: u64 where
  "BANDWIDTH_THRESHOLD = 70"

datatype task_type =
    TASK_TYPE_UNKNOWN
  | TASK_TYPE_MOE_VECTORDB
  | TASK_TYPE_KWORKER
  | TASK_TYPE_REGULAR
  | TASK_TYPE_LATENCY_SENSITIVE
  | TASK_TYPE_READ_INTENSIVE
  | TASK_TYPE_WRITE_INTENSIVE
  | TASK_TYPE_BANDWIDTH_TEST

datatype io_pattern =
    IO_PATTERN_UNKNOWN
  | IO_PATTERN_READ_HEAVY
  | IO_PATTERN_WRITE_HEAVY
  | IO_PATTERN_MIXED
  | IO_PATTERN_SEQUENTIAL
  | IO_PATTERN_RANDOM

record memory_access_pattern =
  nr_accesses :: u64
  avg_access_size :: u64
  total_access_time :: u64
  last_access_time :: u64
  hot_regions :: u64
  cold_regions :: u64
  locality_score :: u32
  working_set_size :: u32
  read_bytes :: u64
  write_bytes :: u64
  io_pattern :: io_pattern

record cxl_pmu_metrics =
  memory_bandwidth :: u64
  cache_hit_rate :: u64
  memory_latency :: u64
  cxl_utilization :: u64
  read_bandwidth :: u64
  write_bandwidth :: u64
  last_update_time :: u64

text \<open>\<open>struct task_ctx\<close> of cxl\_pmu.bpf.c (the minimal scheduler has its own).\<close>

record pmu_task_ctx =
  type :: task_type
  mem_pattern :: memory_access_pattern
  priority_boost :: u32
  cpu_affinity_mask :: u32
  last_scheduled_time :: u64
  consecutive_migrations :: u32
  is_memory_intensive :: bool
  needs_promotion :: bool
  is_bandwidth_critical :: bool
  preferred_dsq :: u32

record cpu_ctx =
  cxl_metrics :: cxl_pmu_metrics
  active_moe_tasks :: u32
  active_kworkers :: u32
  active_read_tasks :: u32
  active_write_tasks :: u32
  last_balance_time :: u64
  is_cxl_attached :: bool
  is_read_optimized :: bool
  is_write_optimized :: bool

section \<open>cxl\_pmu.bpf.c: classify\_io\_pattern\<close>

text \<open>
  The pointer argument is an option: \<open>None\<close> is the NULL pattern. The quotient is
  computed in 64 bits and then stored in the \<open>u32\<close> local \<open>read_ratio\<close>.
\<close>

definition classify_io_pattern :: "memory_access_pattern option \<Rightarrow> io_pattern" where
  "classify_io_pattern pattern =
     (case pattern of
        None \<Rightarrow> IO_PATTERN_UNKNOWN
      | Some p \<Rightarrow>
          if read_bytes p = 0 \<and> write_bytes p = 0 then IO_PATTERN_UNKNOWN
          else
            let total_bytes = read_bytes p + write_bytes p;
                read_ratio = (ucast (bpf_udiv (read_bytes p * 100) total_bytes) :: u32)
            in if read_ratio > 80 then IO_PATTERN_READ_HEAVY
               else if read_ratio < 20 then IO_PATTERN_WRITE_HEAVY
               else IO_PATTERN_MIXED)"

text \<open>
  The same function with the division as a step that can fail: \<open>udiv_checked\<close> reports a
  zero divisor instead of giving a quotient, and \<open>classify_io_pattern_checked\<close> follows
  \<open>classify_io_pattern\<close> statement by statement, so it tells whether an execution of the
  function divides by zero.
\<close>

datatype fault = Division_by_zero

definition udiv_checked :: "u64 \<Rightarrow> u64 \<Rightarrow> fault + u64" where
  "udiv_checked a b = (if b = 0 then Inl Division_by_zero else Inr (a div b))"

definition classify_io_pattern_checked :: "memory_access_pattern option \<Rightarrow> fault + io_pattern" where
  "classify_io_pattern_checked pattern =
     (case pattern of
        None \<Rightarrow> Inr IO_PATTERN_UNKNOWN
      | Some p \<Rightarrow>
          if read_bytes p = 0 \<and> write_bytes p = 0 then Inr IO_PATTERN_UNKNOWN
          else
            let total_bytes = read_bytes p + write_bytes p
            in case udiv_checked (read_bytes p * 100) total_bytes of
                 Inl e \<Rightarrow> Inl e
               | Inr q \<Rightarrow>
                   let read_ratio = (ucast q :: u32)
                   in Inr (if read_ratio > 80 then IO_PATTERN_READ_HEAVY
                           else if read_ratio < 20 then IO_PATTERN_WRITE_HEAVY
                           else IO_PATTERN_MIXED))"

section \<open>The host's task descriptor\<close>

text \<open>
  The fields of the kernel's \<open>struct task_struct\<close> that the two schedulers read or write:
  \<open>comm\<close>, \<open>mm\<close> (only tested against NULL), \<open>se.vruntime\<close>, \<open>se.sum_exec_runtime\<close>,
  \<open>scx.dsq_vtime\<close>, \<open>scx.slice\<close> and \<open>scx.weight\<close>.
\<close>

record task_struct =
  comm :: string
  mm :: bool
  se_vruntime :: u64
  se_sum_exec_runtime :: u64
  scx_dsq_vtime :: u64
  scx_slice :: u64
  scx_weight :: u32

section \<open>cxl\_pmu.bpf.c: update\_damon\_data\<close>

text \<open>\<open>struct memory_access_pattern new_pattern = {0}\<close>.\<close>

definition zero_pattern :: memory_access_pattern where
  "zero_pattern =
     \<lparr> nr_accesses = 0, avg_access_size = 0, total_access_time = 0, last_access_time = 0,
       hot_regions = 0, cold_regions = 0, locality_score = 0, working_set_size = 0,
       read_bytes = 0, write_bytes = 0, io_pattern = IO_PATTERN_UNKNOWN \<rparr>"

text \<open>
  The block guarded by \<open>if (p->mm)\<close>: the working-set estimate and the read/write
  estimate. It returns the pattern and the local \<open>exec_delta\<close>, which stays 0 when the
  block or its inner branch is skipped.
\<close>

definition estimate_io :: "task_struct \<Rightarrow> memory_access_pattern \<Rightarrow> memory_access_pattern \<times> u64" where
  "estimate_io p pattern =
     (if mm p then
        let vruntime = se_vruntime p;
            pattern = pattern\<lparr>working_set_size := ucast ((vruntime div 1000000) mod 65536)\<rparr>
        in if se_sum_exec_runtime p > total_access_time pattern then
             let exec_delta = se_sum_exec_runtime p - total_access_time pattern;
                 pattern =
                   (if exec_delta > nr_accesses pattern * 1000
                    then pattern\<lparr>read_bytes := read_bytes pattern + exec_delta div 1000\<rparr>
                    else pattern\<lparr>write_bytes := write_bytes pattern + exec_delta div 2000\<rparr>)
             in (pattern\<lparr>total_access_time := se_sum_exec_runtime p\<rparr>, exec_delta)
           else (pattern, 0)
      else (pattern, 0))"

text \<open>The first locality adjustment, on \<open>exec_delta\<close> against \<open>nr_accesses * 500\<close>.\<close>

definition locality_step :: "u64 \<Rightarrow> memory_access_pattern \<Rightarrow> memory_access_pattern" where
  "locality_step exec_delta pattern =
     (if exec_delta > nr_accesses pattern * 500
      then pattern\<lparr>locality_score :=
             (if locality_score pattern > 10 then locality_score pattern - 10 else 0)\<rparr>
      else pattern\<lparr>locality_score :=
             (if locality_score pattern < 90 then locality_score pattern + 5 else 100)\<rparr>)"

text \<open>The second adjustment, for the two one-sided I/O patterns.\<close>

definition locality_boost :: "memory_access_pattern \<Rightarrow> memory_access_pattern" where
  "locality_boost pattern =
     (if io_pattern pattern = IO_PATTERN_READ_HEAVY \<or> io_pattern pattern = IO_PATTERN_WRITE_HEAVY
      then pattern\<lparr>locality_score :=
             (if locality_score pattern < 95 then locality_score pattern + 5 else 100)\<rparr>
      else pattern)"

text \<open>
  The body executed when the map holds a pattern for the pid and \<open>time_delta > 0\<close>.
\<close>

definition observe_pattern :: "u64 \<Rightarrow> task_struct \<Rightarrow> memory_access_pattern \<Rightarrow> memory_access_pattern" where
  "observe_pattern current_time p pattern =
     (let pattern = pattern\<lparr>nr_accesses := nr_accesses pattern + 1, last_access_time := current_time\<rparr>;
          (pattern, exec_delta) = estimate_io p pattern;
          pattern = pattern\<lparr>io_pattern := classify_io_pattern (Some pattern)\<rparr>;
          pattern = locality_step exec_delta pattern
      in locality_boost pattern)"

text \<open>
  The map \<open>damon_data\<close> is a hash map from pid to pattern. \<open>current_time\<close> is the value
  \<open>bpf_ktime_get_ns()\<close> returned. Inserting a new key can fail (the map holds at most
  \<open>MAX_TASKS\<close> entries) and the code ignores the result: \<open>insert_ok\<close> is the outcome of
  that insertion. An existing entry is updated through the pointer the lookup returned.
\<close>

definition update_damon_data ::
  "u64 \<Rightarrow> bool \<Rightarrow> u32 \<Rightarrow> task_struct \<Rightarrow> (u32 \<rightharpoonup> memory_access_pattern) \<Rightarrow> (u32 \<rightharpoonup> memory_access_pattern)" where
  "update_damon_data current_time insert_ok pid p damon_data =
     (case damon_data pid of
        None \<Rightarrow>
          if insert_ok
          then damon_data(pid \<mapsto> zero_pattern\<lparr>last_access_time := current_time,
                                               locality_score := 50,
                                               io_pattern := IO_PATTERN_UNKNOWN\<rparr>)
          else damon_data
      | Some pattern \<Rightarrow>
          let time_delta = current_time - last_access_time pattern
          in if time_delta > 0 then damon_data(pid \<mapsto> observe_pattern current_time p pattern)
             else damon_data)"

text \<open>One call of \<open>update_damon_data\<close> with everything it reads from its environment.\<close>

record observation =
  obs_time :: u64
  obs_insert_ok :: bool
  obs_pid :: u32
  obs_task :: task_struct

fun observe_all :: "observation list \<Rightarrow> (u32 \<rightharpoonup> memory_access_pattern) \<Rightarrow> (u32 \<rightharpoonup> memory_access_pattern)" where
  "observe_all [] damon_data = damon_data"
| "observe_all (ob # obs) damon_data =
     observe_all obs (update_damon_data (obs_time ob) (obs_insert_ok ob) (obs_pid ob) (obs_task ob) damon_data)"

section \<open>cxl\_pmu.bpf.c: update\_cxl\_pmu\_metrics\<close>

text \<open>
  \<open>cpu_contexts\<close> is an array map of \<open>MAX_CPUS\<close> slots: a lookup of an index past the end
  returns NULL. The function writes through the pointer it looked up.
\<close>

definition lookup_cpu_ctx :: "(u32 \<Rightarrow> cpu_ctx) \<Rightarrow> u32 \<Rightarrow> cpu_ctx option" where
  "lookup_cpu_ctx cpu_contexts cpu_id =
     (if unat cpu_id < MAX_CPUS then Some (cpu_contexts cpu_id) else None)"

definition refresh_ctx :: "u64 \<Rightarrow> cpu_ctx \<Rightarrow> cpu_ctx" where
  "refresh_ctx current_time ctx =
     (let time_factor = current_time div 1000000;
          m = cxl_metrics ctx;
          m = m\<lparr>memory_bandwidth := 800 + time_factor mod 400\<rparr>;
          m = m\<lparr>cache_hit_rate := 85 + time_factor mod 15\<rparr>;
          m = m\<lparr>memory_latency := 100 + time_factor mod 100\<rparr>;
          m = m\<lparr>cxl_utilization := 60 + time_factor mod 40\<rparr>;
          m = m\<lparr>read_bandwidth := (memory_bandwidth m * 60) div 100\<rparr>;
          m = m\<lparr>write_bandwidth := (memory_bandwidth m * 40) div 100\<rparr>;
          ctx = ctx\<lparr>cxl_metrics := m\<rparr>;
          ctx =
            (if active_read_tasks ctx > active_write_tasks ctx then
               ctx\<lparr>cxl_metrics := (cxl_metrics ctx)\<lparr>read_bandwidth := read_bandwidth (cxl_metrics ctx) + 100\<rparr>,
                     is_read_optimized := True, is_write_optimized := False\<rparr>
             else if active_write_tasks ctx > active_read_tasks ctx then
               ctx\<lparr>cxl_metrics := (cxl_metrics ctx)\<lparr>write_bandwidth := write_bandwidth (cxl_metrics ctx) + 100\<rparr>,
                     is_read_optimized := False, is_write_optimized := True\<rparr>
             else ctx\<lparr>is_read_optimized := False, is_write_optimized := False\<rparr>);
          ctx = ctx\<lparr>cxl_metrics := (cxl_metrics ctx)\<lparr>last_update_time := current_time\<rparr>\<rparr>
      in ctx\<lparr>is_cxl_attached := (memory_latency (cxl_metrics ctx) > 150)\<rparr>)"

definition update_cxl_pmu_metrics :: "u64 \<Rightarrow> u32 \<Rightarrow> (u32 \<Rightarrow> cpu_ctx) \<Rightarrow> (u32 \<Rightarrow> cpu_ctx)" where
  "update_cxl_pmu_metrics current_time cpu_id cpu_contexts =
     (case lookup_cpu_ctx cpu_contexts cpu_id of
        None \<Rightarrow> cpu_contexts
      | Some ctx \<Rightarrow> cpu_contexts(cpu_id := refresh_ctx current_time ctx))"

section \<open>cxl\_pmu.bpf.c: calculate\_task\_priority\<close>

text \<open>
  The adjustment selected by the \<open>switch\<close> on the task type, applied to \<open>base_priority\<close>.
\<close>

definition type_adjust ::
  "pmu_task_ctx \<Rightarrow> memory_access_pattern option \<Rightarrow> cxl_pmu_metrics option \<Rightarrow> u32 \<Rightarrow> u32" where
  "type_adjust tctx pattern metrics base_priority =
     (case type tctx of
        TASK_TYPE_MOE_VECTORDB \<Rightarrow>
          (let b = (if (case pattern of None \<Rightarrow> False | Some pt \<Rightarrow> locality_score pt > MOE_VECTORDB_THRESHOLD)
                    then base_priority - 20 else base_priority)
           in if (case metrics of None \<Rightarrow> False | Some m \<Rightarrow> memory_bandwidth m > 1000)
              then b - 10 else b)
      | TASK_TYPE_READ_INTENSIVE \<Rightarrow>
          (let b = (if (case metrics of None \<Rightarrow> False | Some m \<Rightarrow> read_bandwidth m > BANDWIDTH_THRESHOLD)
                    then base_priority - 15 else base_priority)
           in if (case pattern of None \<Rightarrow> False | Some pt \<Rightarrow> io_pattern pt = IO_PATTERN_READ_HEAVY)
              then b - 10 else b)
      | TASK_TYPE_WRITE_INTENSIVE \<Rightarrow>
          (let b = (if (case metrics of None \<Rightarrow> False | Some m \<Rightarrow> write_bandwidth m > BANDWIDTH_THRESHOLD)
                    then base_priority - 15 else base_priority)
           in if (case pattern of None \<Rightarrow> False | Some pt \<Rightarrow> io_pattern pt = IO_PATTERN_WRITE_HEAVY)
              then b - 10 else b)
      | TASK_TYPE_BANDWIDTH_TEST \<Rightarrow>
          (let b = (if is_bandwidth_critical tctx then base_priority - 30 else base_priority)
           in case pattern of
                None \<Rightarrow> b
              | Some pt \<Rightarrow>
                  if io_pattern pt = IO_PATTERN_READ_HEAVY \<and>
                     (case metrics of None \<Rightarrow> False | Some m \<Rightarrow> read_bandwidth m > 100)
                  then b - 10
                  else if io_pattern pt = IO_PATTERN_WRITE_HEAVY \<and>
                     (case metrics of None \<Rightarrow> False | Some m \<Rightarrow> write_bandwidth m > 100)
                  then b - 10
                  else b)
      | TASK_TYPE_KWORKER \<Rightarrow>
          (let b = (if needs_promotion tctx then base_priority - 15 else base_priority)
           in if (case metrics of None \<Rightarrow> False | Some m \<Rightarrow> cxl_utilization m > 90)
              then b + 10 else b)
      | TASK_TYPE_LATENCY_SENSITIVE \<Rightarrow> base_priority - 25
      | _ \<Rightarrow>
          (if (case pattern of None \<Rightarrow> False | Some pt \<Rightarrow> locality_score pt < 30)
           then base_priority + 10 else base_priority))"

text \<open>
  The function returns the priority; it also decays \<open>tctx->priority_boost\<close> in place, so
  the model returns the task context as well.
\<close>

definition calculate_task_priority ::
  "pmu_task_ctx \<Rightarrow> memory_access_pattern option \<Rightarrow> cxl_pmu_metrics option \<Rightarrow> u32 \<times> pmu_task_ctx" where
  "calculate_task_priority tctx pattern metrics =
     (let base_priority = type_adjust tctx pattern metrics 120
      in if priority_boost tctx > 0 then
           (if base_priority > priority_boost tctx then base_priority - priority_boost tctx else 1,
            tctx\<lparr>priority_boost :=
                    (if priority_boost tctx > 5 then priority_boost tctx - 5 else 0)\<rparr>)
         else (base_priority, tctx))"

section \<open>cxl\_pmu.bpf.c: the enqueue operation\<close>

text \<open>
  \<open>cxl_enqueue\<close> of cxl\_pmu.bpf.c. Its one statement, the insertion into
  the fallback queue, is commented out, so the body is empty: the dispatch queues (a list
  of task ids per queue id) are returned as they were.
\<close>

definition pmu_cxl_enqueue :: "nat \<Rightarrow> u64 \<Rightarrow> (u64 \<Rightarrow> nat list) \<Rightarrow> (u64 \<Rightarrow> nat list)" where
  "pmu_cxl_enqueue p enq_flags queues = queues"

section \<open>cxl\_pmu\_minimal.bpf.c: state\<close>

definition FALLBACK_DSQ_ID :: u64 where
  "FALLBACK_DSQ_ID = 0"

record task_ctx =
  is_vectordb :: bool
  is_kworker :: bool

text \<open>
  An entry of a dispatch queue: the task, and the virtual time it was inserted with
  (\<open>None\<close> for the FIFO insertion \<open>scx_bpf_dsq_insert\<close>).
\<close>

record dsq_entry =
  e_task :: nat
  e_vtime :: "u64 option"
  e_enq_flags :: u64

text \<open>
  Tasks are named by a number (the address of their \<open>task_struct\<close>). The state holds the
  global \<open>global_vtime\<close>, the task storage map, the task descriptors and the dispatch queues.
\<close>

record sched_state =
  global_vtime :: u64
  task_ctx_stor :: "nat \<rightharpoonup> task_ctx"
  tasks :: "nat \<Rightarrow> task_struct"
  dsqs :: "u64 \<Rightarrow> dsq_entry list"

section \<open>cxl\_pmu\_minimal.bpf.c: helpers\<close>

text \<open>\<open>(s64)(a - b) < 0\<close>.\<close>

definition vtime_before :: "u64 \<Rightarrow> u64 \<Rightarrow> bool" where
  "vtime_before a b \<longleftrightarrow> sint (a - b) < 0"

text \<open>
  The local buffer \<open>comm\<close> after \<open>bpf_probe_read_kernel_str\<close>: the bytes of the name, then
  the terminating NUL.
\<close>

definition comm_byte :: "task_struct \<Rightarrow> nat \<Rightarrow> char" where
  "comm_byte p i = (if i < length (comm p) then comm p ! i else CHR 0x00)"

definition is_vectordb_task :: "task_struct \<Rightarrow> bool" where
  "is_vectordb_task p \<longleftrightarrow>
     comm_byte p 0 = CHR ''v'' \<or> comm_byte p 0 = CHR ''f'' \<or> comm_byte p 0 = CHR ''p''"

definition is_kworker_task :: "task_struct \<Rightarrow> bool" where
  "is_kworker_task p \<longleftrightarrow> comm_byte p 0 = CHR ''k'' \<and> comm_byte p 1 = CHR ''w''"

subsection \<open>Host functions\<close>

text \<open>
  The host's helpers are not part of the repository; they are modelled by their documented
  effect. \<open>bpf_task_storage_get\<close> returns the task's storage; with the create flag it
  allocates a zeroed one when there is none, which can fail (\<open>alloc_ok\<close> is the outcome).
\<close>

definition bpf_task_storage_get ::
  "(nat \<rightharpoonup> task_ctx) \<Rightarrow> nat \<Rightarrow> bool \<Rightarrow> bool \<Rightarrow> task_ctx option \<times> (nat \<rightharpoonup> task_ctx)" where
  "bpf_task_storage_get stor p create alloc_ok =
     (case stor p of
        Some c \<Rightarrow> (Some c, stor)
      | None \<Rightarrow>
          if create \<and> alloc_ok
          then (Some \<lparr>is_vectordb = False, is_kworker = False\<rparr>,
                stor(p \<mapsto> \<lparr>is_vectordb = False, is_kworker = False\<rparr>))
          else (None, stor))"

text \<open>
  \<open>scx_bpf_dsq_insert\<close> sets the task's slice and queues the task in FIFO order;
  \<open>scx_bpf_dsq_insert_vtime\<close> also stores the virtual time in \<open>p->scx.dsq_vtime\<close> and
  queues the task under it.
\<close>

definition set_slice :: "u64 \<Rightarrow> task_struct \<Rightarrow> task_struct" where
  "set_slice slc t =
     t\<lparr>scx_slice := (if slc \<noteq> 0 then slc else if scx_slice t \<noteq> 0 then scx_slice t else 1)\<rparr>"

definition scx_bpf_dsq_insert :: "nat \<Rightarrow> u64 \<Rightarrow> u64 \<Rightarrow> u64 \<Rightarrow> sched_state \<Rightarrow> sched_state" where
  "scx_bpf_dsq_insert p dsq_id slc enq_flags st =
     st\<lparr>tasks := (tasks st)(p := set_slice slc (tasks st p)),
        dsqs := (dsqs st)(dsq_id := dsqs st dsq_id @
                  [\<lparr>e_task = p, e_vtime = None, e_enq_flags = enq_flags\<rparr>])\<rparr>"

definition scx_bpf_dsq_insert_vtime ::
  "nat \<Rightarrow> u64 \<Rightarrow> u64 \<Rightarrow> u64 \<Rightarrow> u64 \<Rightarrow> sched_state \<Rightarrow> sched_state" where
  "scx_bpf_dsq_insert_vtime p dsq_id slc vtime enq_flags st =
     st\<lparr>tasks := (tasks st)(p := (set_slice slc (tasks st p))\<lparr>scx_dsq_vtime := vtime\<rparr>),
        dsqs := (dsqs st)(dsq_id := dsqs st dsq_id @
                  [\<lparr>e_task = p, e_vtime = Some vtime, e_enq_flags = enq_flags\<rparr>])\<rparr>"

section \<open>cxl\_pmu\_minimal.bpf.c: the scheduler operations\<close>

text \<open>
  \<open>SCX_SLICE_DFL\<close> comes from the host's headers; the operations take it as the parameter
  \<open>slice_dfl\<close>.
\<close>

definition cxl_enqueue :: "u64 \<Rightarrow> bool \<Rightarrow> nat \<Rightarrow> u64 \<Rightarrow> sched_state \<Rightarrow> sched_state" where
  "cxl_enqueue slice_dfl alloc_ok p enq_flags st =
     (let vtime = scx_dsq_vtime (tasks st p);
          slc = slice_dfl;
          (got, stor) = bpf_task_storage_get (task_ctx_stor st) p True alloc_ok;
          st = st\<lparr>task_ctx_stor := stor\<rparr>
      in case got of
           None \<Rightarrow> scx_bpf_dsq_insert p FALLBACK_DSQ_ID slc enq_flags st
         | Some tctx \<Rightarrow>
             let tctx = (if \<not> is_vectordb tctx \<and> \<not> is_kworker tctx
                         then tctx\<lparr>is_vectordb := is_vectordb_task (tasks st p),
                                   is_kworker := is_kworker_task (tasks st p)\<rparr>
                         else tctx);
                 st = st\<lparr>task_ctx_stor := (task_ctx_stor st)(p \<mapsto> tctx)\<rparr>;
                 vtime = (if vtime_before vtime (global_vtime st - slc)
                          then global_vtime st - slc else vtime);
                 vtime = (if is_vectordb tctx then vtime - slc else vtime);
                 vtime = (if is_kworker tctx then vtime + slc else vtime)
             in scx_bpf_dsq_insert_vtime p FALLBACK_DSQ_ID slc vtime enq_flags st)"

definition cxl_running :: "nat \<Rightarrow> sched_state \<Rightarrow> sched_state" where
  "cxl_running p st =
     (if vtime_before (global_vtime st) (scx_dsq_vtime (tasks st p))
      then st\<lparr>global_vtime := scx_dsq_vtime (tasks st p)\<rparr>
      else st)"

definition cxl_stopping :: "u64 \<Rightarrow> nat \<Rightarrow> bool \<Rightarrow> sched_state \<Rightarrow> sched_state" where
  "cxl_stopping slice_dfl p runnable st =
     st\<lparr>tasks := (tasks st)(p := (tasks st p)\<lparr>scx_dsq_vtime :=
            scx_dsq_vtime (tasks st p) +
            bpf_udiv ((slice_dfl - scx_slice (tasks st p)) * 100) (ucast (scx_weight (tasks st p)))\<rparr>)\<rparr>"

text \<open>\<open>cxl_init_task\<close> returns \<open>-ENOMEM\<close> (\<open>-12\<close>) when the storage cannot be created.\<close>

definition cxl_init_task :: "bool \<Rightarrow> nat \<Rightarrow> sched_state \<Rightarrow> int \<times> sched_state" where
  "cxl_init_task alloc_ok p st =
     (let (got, stor) = bpf_task_storage_get (task_ctx_stor st) p True alloc_ok;
          st = st\<lparr>task_ctx_stor := stor\<rparr>
      in case got of
           None \<Rightarrow> (- 12, st)
         | Some tctx \<Rightarrow>
             (0, st\<lparr>task_ctx_stor := (task_ctx_stor st)(p \<mapsto> tctx\<lparr>is_vectordb := False, is_kworker := False\<rparr>)\<rparr>))"

text \<open>A sequence of run-start events, one per task of the list.\<close>

fun running_all :: "nat list \<Rightarrow> sched_state \<Rightarrow> sched_state" where
  "running_all [] st = st"
| "running_all (p # ps) st = running_all ps (cxl_running p st)"




section \<open>The specification's formulas\<close>

text \<open>
  The classification as the specification words it: read-heavy when the read share of the
  bytes exceeds 80 percent, write-heavy when it is below 20 percent, mixed otherwise
  (unknown while nothing was counted). The shares are compared exactly, without rounding.
\<close>

definition spec_io_pattern :: "nat \<Rightarrow> nat \<Rightarrow> io_pattern" where
  "spec_io_pattern r w =
     (if r = 0 \<and> w = 0 then IO_PATTERN_UNKNOWN
      else if 100 * r > 80 * (r + w) then IO_PATTERN_READ_HEAVY
      else if 100 * r < 20 * (r + w) then IO_PATTERN_WRITE_HEAVY
      else IO_PATTERN_MIXED)"

text \<open>
  The classification on the integer percentage \<open>\<lfloor>100 r / (r + w)\<rfloor>\<close>, over unbounded
  numbers.
\<close>

definition percent_io_pattern :: "nat \<Rightarrow> nat \<Rightarrow> io_pattern" where
  "percent_io_pattern r w =
     (if r = 0 \<and> w = 0 then IO_PATTERN_UNKNOWN
      else if (100 * r) div (r + w) > 80 then IO_PATTERN_READ_HEAVY
      else if (100 * r) div (r + w) < 20 then IO_PATTERN_WRITE_HEAVY
      else IO_PATTERN_MIXED)"

text \<open>
  The locality update as the specification words it: minus 10 floored at 0 when the
  observation is erratic (subtraction on \<open>nat\<close> stops at 0), otherwise plus 5 with ceiling
  100; then plus 5 capped at 100 for a one-sided I/O pattern.
\<close>

definition spec_locality_update :: "nat \<Rightarrow> bool \<Rightarrow> bool \<Rightarrow> nat" where
  "spec_locality_update score erratic one_sided =
     (let s = (if erratic then score - 10 else min (score + 5) 100)
      in if one_sided then min (s + 5) 100 else s)"

text \<open>
  The maximum of two virtual times on the 64-bit clock, where a time is later than another
  when the signed 64-bit difference is positive: \<open>b\<close>, moved forward by the signed distance
  from \<open>b\<close> to \<open>a\<close> when that distance is positive.
\<close>

definition vtime_max :: "u64 \<Rightarrow> u64 \<Rightarrow> u64" where
  "vtime_max a b = b + word_of_int (max (sint (a - b)) 0)"

text \<open>
  The virtual time of an enqueue as the specification gives it,
  \<open>max(current, GlobalClock - slice) - (slice if bonus) + (slice if penalty)\<close>: on the 64-bit
  clock, and over the unbounded integers.
\<close>

definition spec_enqueue_vtime :: "u64 \<Rightarrow> u64 \<Rightarrow> u64 \<Rightarrow> bool \<Rightarrow> bool \<Rightarrow> u64" where
  "spec_enqueue_vtime cur clock slc bonus penalty =
     vtime_max cur (clock - slc) - (if bonus then slc else 0) + (if penalty then slc else 0)"

definition spec_enqueue_vtime_int :: "int \<Rightarrow> int \<Rightarrow> int \<Rightarrow> bool \<Rightarrow> bool \<Rightarrow> int" where
  "spec_enqueue_vtime_int cur clock slc bonus penalty =
     max cur (clock - slc) - (if bonus then slc else 0) + (if penalty then slc else 0)"

section \<open>Invariants of the stored patterns\<close>

text \<open>
  The byte counters never outgrow the execution time they were estimated from: every
  increment of \<open>read_bytes\<close> is a thousandth, every increment of \<open>write_bytes\<close> a
  two-thousandth of the increase of \<open>total_access_time\<close>.
\<close>

definition counters_bounded :: "memory_access_pattern \<Rightarrow> bool" where
  "counters_bounded p \<longleftrightarrow>
     1000 * unat (read_bytes p) + 2000 * unat (write_bytes p) \<le> unat (total_access_time p)"

text \<open>
  What every stored pattern satisfies: bounded counters, a locality score of at most 100,
  and an \<open>io_pattern\<close> field that is the classification of the counters.
\<close>

definition pattern_ok :: "memory_access_pattern \<Rightarrow> bool" where
  "pattern_ok p \<longleftrightarrow>
     counters_bounded p \<and> locality_score p \<le> 100 \<and> io_pattern p = classify_io_pattern (Some p)"

section \<open>Runs of the engine inside a window of the clock\<close>






section \<open>Example inputs\<close>

text \<open>A CPU context with five active readers and one active writer.\<close>

definition example_cpu_ctx :: cpu_ctx where
  "example_cpu_ctx =
     \<lparr> cxl_metrics = \<lparr> memory_bandwidth = 0, cache_hit_rate = 0, memory_latency = 0,
                        cxl_utilization = 0, read_bandwidth = 0, write_bandwidth = 0,
                        last_update_time = 0 \<rparr>,
       active_moe_tasks = 0, active_kworkers = 0, active_read_tasks = 5, active_write_tasks = 1,
       last_balance_time = 0, is_cxl_attached = False, is_read_optimized = False,
       is_write_optimized = True \<rparr>"


text \<open>
  A task without a memory descriptor that has not run, a task that has run for 900000 ns,
  and observations of pid 7 at a given time.
\<close>

definition quiet_task :: task_struct where
  "quiet_task = \<lparr> comm = ''idle'', mm = False, se_vruntime = 0, se_sum_exec_runtime = 0,
                   scx_dsq_vtime = 0, scx_slice = 0, scx_weight = 100 \<rparr>"

definition busy_task :: task_struct where
  "busy_task = \<lparr> comm = ''vectordb-worker'', mm = True, se_vruntime = 5000000,
                  se_sum_exec_runtime = 900000, scx_dsq_vtime = 0, scx_slice = 0, scx_weight = 100 \<rparr>"

definition quiet_obs :: "u64 \<Rightarrow> observation" where
  "quiet_obs t = \<lparr> obs_time = t, obs_insert_ok = True, obs_pid = 7, obs_task = quiet_task \<rparr>"

text \<open>The pattern stored after a first observation and one observation of the busy task.\<close>

definition read_heavy_example :: memory_access_pattern where
  "read_heavy_example =
     zero_pattern\<lparr>nr_accesses := 1, total_access_time := 900000, last_access_time := 2,
        locality_score := 45, working_set_size := 5, read_bytes := 900,
        io_pattern := IO_PATTERN_READ_HEAVY\<rparr>"

text \<open>A pattern whose two counters add up to \<open>2^64\<close>.\<close>

definition wrapping_pattern :: memory_access_pattern where
  "wrapping_pattern = zero_pattern\<lparr>read_bytes := 1, write_bytes := 18446744073709551615\<rparr>"

text \<open>The pattern stored after a first observation and eight observations of the quiet task.\<close>

definition score90 :: memory_access_pattern where
  "score90 = zero_pattern\<lparr>nr_accesses := 8, last_access_time := 9, locality_score := 90\<rparr>"


text \<open>
  A read-intensive task with no pending boost, a pattern with 900 bytes read and 100
  written, and telemetry with a read bandwidth of 80.
\<close>

definition read_intensive_ctx :: pmu_task_ctx where
  "read_intensive_ctx =
     \<lparr> type = TASK_TYPE_READ_INTENSIVE, mem_pattern = zero_pattern, priority_boost = 0,
       cpu_affinity_mask = 0, last_scheduled_time = 0, consecutive_migrations = 0,
       is_memory_intensive = False, needs_promotion = False, is_bandwidth_critical = False,
       preferred_dsq = 0 \<rparr>"

definition pattern_900_100 :: memory_access_pattern where
  "pattern_900_100 =
     zero_pattern\<lparr>read_bytes := 900, write_bytes := 100, io_pattern := IO_PATTERN_READ_HEAVY\<rparr>"

definition metrics_read_80 :: cxl_pmu_metrics where
  "metrics_read_80 =
     \<lparr> memory_bandwidth = 0, cache_hit_rate = 0, memory_latency = 0, cxl_utilization = 0,
       read_bandwidth = 80, write_bandwidth = 0, last_update_time = 0 \<rparr>"

text \<open>
  Tasks of the minimal scheduler: a slice of 5 ms left, weight 100. In the example state the
  global clock is at 50 ms, task 11 is a vector database at 10 ms, task 12 a kernel worker
  at 40 ms, every other task a shell at 60 ms; no task has a context yet.
\<close>

definition example_task :: "string \<Rightarrow> u64 \<Rightarrow> task_struct" where
  "example_task name vt =
     \<lparr> comm = name, mm = True, se_vruntime = 0, se_sum_exec_runtime = 0,
       scx_dsq_vtime = vt, scx_slice = 5000000, scx_weight = 100 \<rparr>"

definition example_state :: sched_state where
  "example_state =
     \<lparr> global_vtime = 50000000, task_ctx_stor = Map.empty,
       tasks = (\<lambda>i. if i = 11 then example_task ''vectordb'' 10000000
                    else if i = 12 then example_task ''kworker/0:1'' 40000000
                    else example_task ''bash'' 60000000),
       dsqs = (\<lambda>_. []) \<rparr>"

text \<open>
  A state whose tasks are \<open>2^63\<close> away from the clamp point \<open>global_vtime - slice = 0\<close>
  (with a slice of 20 ms).
\<close>

definition antipode_state :: sched_state where
  "antipode_state =
     \<lparr> global_vtime = 20000000, task_ctx_stor = Map.empty,
       tasks = (\<lambda>i. example_task ''bash'' 9223372036854775808),
       dsqs = (\<lambda>_. []) \<rparr>"

text \<open>
  A state with the clock at \<open>2^62\<close> and four tasks at \<open>2^63\<close>, \<open>3 * 2^62\<close>, \<open>0\<close> and
  \<open>2^62 - 1\<close>: each is less than \<open>2^63\<close> ahead of the one before.
\<close>

definition cycle_state :: sched_state where
  "cycle_state =
     \<lparr> global_vtime = 4611686018427387904, task_ctx_stor = Map.empty,
       tasks = (\<lambda>i. example_task ''bash''
                  (if i = 0 then 9223372036854775808
                   else if i = 1 then 13835058055282163712
                   else if i = 2 then 0
                   else 4611686018427387903)),
       dsqs = (\<lambda>_. []) \<rparr>"


section \<open>Telemetry refresh\<close>

lemma refresh_bw: "memory_bandwidth (cxl_metrics (refresh_ctx t ctx)) = 800 + (t div 1000000) mod 400"
  by (simp add: refresh_ctx_def Let_def)

lemma uint_mb: "uint (800 + (x :: u64) mod 400) = 800 + uint x mod 400"
  by (simp add: uint_word_ariths uint_mod) 

lemma refresh_bw_bound: "uint (memory_bandwidth (cxl_metrics (refresh_ctx t ctx))) < 1200"
proof -
  have "uint (t div 1000000) mod 400 < 400" by simp
  then show ?thesis unfolding refresh_bw uint_mb by linarith
qed

lemma uint_times_small:
  fixes mb :: u64
  assumes "uint mb < 1200"
  shows "uint (mb * 60) = uint mb * 60" and "uint (mb * 40) = uint mb * 40"
proof -
  have nn: "0 \<le> uint mb" by simp
  have "uint mb * 60 < 2 ^ 64" "uint mb * 40 < 2 ^ 64" using assms by simp_all
  then show "uint (mb * 60) = uint mb * 60" and "uint (mb * 40) = uint mb * 40"
    using nn by (simp_all add: uint_word_ariths)
qed

lemma uint_share:
  fixes mb :: u64
  assumes "uint mb < 1200"
  shows "uint (mb * 60 div 100) = uint mb * 60 div 100"
    and "uint (mb * 40 div 100) = uint mb * 40 div 100"
  using uint_times_small [OF assms] by (simp_all add: uint_div)

lemma uint_share_bonus:
  fixes mb :: u64
  assumes "uint mb < 1200"
  shows "uint (mb * 60 div 100 + 100) = uint mb * 60 div 100 + 100"
    and "uint (mb * 40 div 100 + 100) = uint mb * 40 div 100 + 100"
proof -
  have nn: "0 \<le> uint mb * 60 div 100" "0 \<le> uint mb * 40 div 100"
    by (rule pos_imp_zdiv_nonneg_iff [THEN iffD2]; simp)+
  have lt: "uint mb * 60 div 100 + 100 < 2 ^ 64" "uint mb * 40 div 100 + 100 < 2 ^ 64"
    using assms by simp_all
  have "uint (mb * 60 div 100 + 100) = (uint mb * 60 div 100 + 100) mod 2 ^ 64"
    by (simp add: uint_word_ariths uint_share [OF assms])
  also have "\<dots> = uint mb * 60 div 100 + 100"
    using nn(1) lt(1) by (intro mod_pos_pos_trivial) linarith+
  finally show "uint (mb * 60 div 100 + 100) = uint mb * 60 div 100 + 100" .
  have "uint (mb * 40 div 100 + 100) = (uint mb * 40 div 100 + 100) mod 2 ^ 64"
    by (simp add: uint_word_ariths uint_share [OF assms])
  also have "\<dots> = uint mb * 40 div 100 + 100"
    using nn(2) lt(2) by (intro mod_pos_pos_trivial) linarith+
  finally show "uint (mb * 40 div 100 + 100) = uint mb * 40 div 100 + 100" .
qed

lemma refresh_read_word:
  "read_bandwidth (cxl_metrics (refresh_ctx t ctx)) =
     memory_bandwidth (cxl_metrics (refresh_ctx t ctx)) * 60 div 100
       + (if active_read_tasks ctx > active_write_tasks ctx then 100 else 0)"
  by (simp add: refresh_ctx_def Let_def)

lemma refresh_write_word:
  "write_bandwidth (cxl_metrics (refresh_ctx t ctx)) =
     memory_bandwidth (cxl_metrics (refresh_ctx t ctx)) * 40 div 100
       + (if active_read_tasks ctx > active_write_tasks ctx then 0
          else if active_write_tasks ctx > active_read_tasks ctx then 100 else 0)"
  by (simp add: refresh_ctx_def Let_def)

lemma refresh_flags:
  "is_read_optimized (refresh_ctx t ctx) = (active_read_tasks ctx > active_write_tasks ctx)"
  "is_write_optimized (refresh_ctx t ctx) = (active_write_tasks ctx > active_read_tasks ctx)"
  "active_read_tasks (refresh_ctx t ctx) = active_read_tasks ctx"
  "active_write_tasks (refresh_ctx t ctx) = active_write_tasks ctx"
  by (auto simp add: refresh_ctx_def Let_def)

lemma refresh_read:
  "uint (read_bandwidth (cxl_metrics (refresh_ctx t ctx))) =
     uint (memory_bandwidth (cxl_metrics (refresh_ctx t ctx))) * 60 div 100
       + (if active_read_tasks ctx > active_write_tasks ctx then 100 else 0)"
  using uint_share [OF refresh_bw_bound, of t ctx] uint_share_bonus [OF refresh_bw_bound, of t ctx]
  unfolding refresh_read_word by simp

lemma refresh_write:
  "uint (write_bandwidth (cxl_metrics (refresh_ctx t ctx))) =
     uint (memory_bandwidth (cxl_metrics (refresh_ctx t ctx))) * 40 div 100
       + (if active_write_tasks ctx > active_read_tasks ctx then 100 else 0)"
  using uint_share [OF refresh_bw_bound, of t ctx] uint_share_bonus [OF refresh_bw_bound, of t ctx]
  unfolding refresh_write_word by auto


lemma update_cxl_pmu_metrics_slot:
  "unat cpu_id < MAX_CPUS \<Longrightarrow>
     update_cxl_pmu_metrics t cpu_id cpu_contexts cpu_id = refresh_ctx t (cpu_contexts cpu_id)"
  by (simp add: update_cxl_pmu_metrics_def lookup_cpu_ctx_def)

text \<open>
  C9. A refresh of an existing CPU slot splits the total memory bandwidth 60/40 (integer
  percentages of \<open>memory_bandwidth\<close>), adds 100 to the side with strictly more active
  tasks and sets that side's flag alone; with equal counts both flags are false. With five
  active readers and one active writer the read flag is set, the write flag is clear and
  the read bandwidth is 60 percent of the total plus 100.
\<close>

theorem telemetry_refresh_split:
  assumes "unat cpu_id < MAX_CPUS"
  shows "let ctx = cpu_contexts cpu_id;
             ctx' = update_cxl_pmu_metrics t cpu_id cpu_contexts cpu_id;
             total = uint (memory_bandwidth (cxl_metrics ctx'))
         in uint (read_bandwidth (cxl_metrics ctx')) =
              total * 60 div 100 + (if active_read_tasks ctx > active_write_tasks ctx then 100 else 0)
          \<and> uint (write_bandwidth (cxl_metrics ctx')) =
              total * 40 div 100 + (if active_write_tasks ctx > active_read_tasks ctx then 100 else 0)
          \<and> is_read_optimized ctx' = (active_read_tasks ctx > active_write_tasks ctx)
          \<and> is_write_optimized ctx' = (active_write_tasks ctx > active_read_tasks ctx)
          \<and> (active_read_tasks ctx = 5 \<and> active_write_tasks ctx = 1 \<longrightarrow>
                is_read_optimized ctx' \<and> \<not> is_write_optimized ctx' \<and>
                uint (read_bandwidth (cxl_metrics ctx')) = total * 60 div 100 + 100)"
  unfolding Let_def update_cxl_pmu_metrics_slot [OF assms]
  by (simp add: refresh_read refresh_write refresh_flags)

text \<open>The theorem at CPU 0, time 1234000000 ns: total 834, read share 500, plus 100.\<close>

theorem telemetry_refresh_split_witness:
  "unat (0 :: u32) < MAX_CPUS \<and>
   is_read_optimized (update_cxl_pmu_metrics 1234000000 0 (\<lambda>_. example_cpu_ctx) 0) \<and>
   \<not> is_write_optimized (update_cxl_pmu_metrics 1234000000 0 (\<lambda>_. example_cpu_ctx) 0) \<and>
   memory_bandwidth (cxl_metrics (update_cxl_pmu_metrics 1234000000 0 (\<lambda>_. example_cpu_ctx) 0)) = 834 \<and>
   uint (read_bandwidth (cxl_metrics (update_cxl_pmu_metrics 1234000000 0 (\<lambda>_. example_cpu_ctx) 0))) = 600"
proof -
  have h: "unat (0 :: u32) < MAX_CPUS" by (simp add: MAX_CPUS_def)
  have mb: "memory_bandwidth (cxl_metrics (update_cxl_pmu_metrics 1234000000 0 (\<lambda>_. example_cpu_ctx) 0)) = 834"
    by (simp add: update_cxl_pmu_metrics_slot [OF h] refresh_bw)
  show ?thesis
    using h mb telemetry_refresh_split [OF h, of "\<lambda>_. example_cpu_ctx" 1234000000]
    by (simp add: Let_def example_cpu_ctx_def)
qed

section \<open>Priority of a read-intensive task\<close>

text \<open>
  C6. A pattern with \<open>read_bytes = 900\<close> and \<open>write_bytes = 100\<close> classifies as read-heavy;
  a read-intensive task with that pattern, \<open>read_bandwidth = 80\<close> and no pending
  \<open>priority_boost\<close> gets priority \<open>120 - 25 = 95\<close>.
\<close>

theorem read_intensive_scenario:
  assumes "type tctx = TASK_TYPE_READ_INTENSIVE"
      and "priority_boost tctx = 0"
      and "read_bytes pat = 900" and "write_bytes pat = 100"
      and "io_pattern pat = classify_io_pattern (Some pat)"
      and "read_bandwidth m = 80"
  shows "classify_io_pattern (Some pat) = IO_PATTERN_READ_HEAVY \<and>
         fst (calculate_task_priority tctx (Some pat) (Some m)) = 120 - 25 \<and>
         fst (calculate_task_priority tctx (Some pat) (Some m)) = 95"
proof -
  have c: "classify_io_pattern (Some pat) = IO_PATTERN_READ_HEAVY"
    using assms(3,4) by (simp add: classify_io_pattern_def bpf_udiv_def Let_def)
  show ?thesis
    using assms c
    by (simp add: calculate_task_priority_def type_adjust_def BANDWIDTH_THRESHOLD_def Let_def)
qed

theorem read_intensive_scenario_witness:
  "type read_intensive_ctx = TASK_TYPE_READ_INTENSIVE \<and>
   priority_boost read_intensive_ctx = 0 \<and>
   read_bytes pattern_900_100 = 900 \<and> write_bytes pattern_900_100 = 100 \<and>
   io_pattern pattern_900_100 = classify_io_pattern (Some pattern_900_100) \<and>
   read_bandwidth metrics_read_80 = 80 \<and>
   classify_io_pattern (Some pattern_900_100) = IO_PATTERN_READ_HEAVY \<and>
   fst (calculate_task_priority read_intensive_ctx (Some pattern_900_100) (Some metrics_read_80)) = 95"
proof -
  have h1: "type read_intensive_ctx = TASK_TYPE_READ_INTENSIVE"
    and h2: "priority_boost read_intensive_ctx = 0"
    by (simp_all add: read_intensive_ctx_def)
  have h3: "read_bytes pattern_900_100 = 900" and h4: "write_bytes pattern_900_100 = 100"
    by (simp_all add: pattern_900_100_def zero_pattern_def)
  have h5: "io_pattern pattern_900_100 = classify_io_pattern (Some pattern_900_100)"
    by (simp add: pattern_900_100_def zero_pattern_def classify_io_pattern_def bpf_udiv_def Let_def)
  have h6: "read_bandwidth metrics_read_80 = 80"
    by (simp add: metrics_read_80_def)
  show ?thesis
    using h1 h2 h3 h4 h5 h6 read_intensive_scenario [OF h1 h2 h3 h4 h5 h6] by simp
qed

text \<open>
  With a pending boost \<open>b > 0\<close> the same task gets \<open>95 - b\<close>, and 1 when \<open>b\<close> is 95 or
  more.
\<close>

lemma read_intensive_scenario_boosted:
  assumes "type tctx = TASK_TYPE_READ_INTENSIVE"
      and "priority_boost tctx > 0"
      and "io_pattern pat = IO_PATTERN_READ_HEAVY"
      and "read_bandwidth m = 80"
  shows "fst (calculate_task_priority tctx (Some pat) (Some m)) =
           (if 95 > priority_boost tctx then 95 - priority_boost tctx else 1)"
  using assms
  by (simp add: calculate_task_priority_def type_adjust_def BANDWIDTH_THRESHOLD_def Let_def)

section \<open>Classification of the I/O pattern\<close>

lemma unat_u64_lt: "unat (x :: u64) < 2 ^ 64"
  using unsigned_less [of x, where 'a = nat] by simp

lemma classify_percent:
  assumes "unat (read_bytes p) * 100 < 2 ^ 64"
      and "unat (read_bytes p) + unat (write_bytes p) < 2 ^ 64"
  shows "classify_io_pattern (Some p) = percent_io_pattern (unat (read_bytes p)) (unat (write_bytes p))"
proof (cases "read_bytes p = 0 \<and> write_bytes p = 0")
  case True
  then show ?thesis by (simp add: classify_io_pattern_def percent_io_pattern_def)
next
  case False
  define r where "r = unat (read_bytes p)"
  define w where "w = unat (write_bytes p)"
  have nz: "\<not> (r = 0 \<and> w = 0)" using False by (simp add: r_def w_def unat_eq_0)
  have tot: "unat (read_bytes p + write_bytes p) = r + w"
    using assms(2) by (simp add: r_def w_def unat_add_lem [THEN iffD1])
  then have tnz: "read_bytes p + write_bytes p \<noteq> 0" using nz by (auto simp: unat_eq_0 [symmetric] simp del: unat_eq_0)
  have m: "unat (read_bytes p * 100) = r * 100"
    using assms(1) by (simp add: r_def unat_mult_lem [THEN iffD1])
  have q: "unat (read_bytes p * 100 div (read_bytes p + write_bytes p)) = (100 * r) div (r + w)"
    by (simp add: unat_div m tot mult.commute)
  have qle: "(100 * r) div (r + w) \<le> 100"
  proof -
    have "100 * r \<le> 100 * (r + w)" by simp
    then have "(100 * r) div (r + w) \<le> (100 * (r + w)) div (r + w)" by (rule div_le_mono)
    also have "\<dots> = 100" using nz nonzero_mult_div_cancel_right [of "r + w" 100] by simp
    finally show ?thesis .
  qed
  have uc: "unat (ucast (read_bytes p * 100 div (read_bytes p + write_bytes p)) :: u32) = (100 * r) div (r + w)"
  proof -
    have "(100 * r) div (r + w) < 2 ^ 32" using qle by simp
    then show ?thesis
      by (simp add: unsigned_ucast_eq q take_bit_nat_eq_self)
  qed
  have gt: "(ucast (read_bytes p * 100 div (read_bytes p + write_bytes p)) :: u32) > 80 \<longleftrightarrow> (100 * r) div (r + w) > 80"
    by (simp add: word_less_nat_alt uc)
  have lt: "(ucast (read_bytes p * 100 div (read_bytes p + write_bytes p)) :: u32) < 20 \<longleftrightarrow> (100 * r) div (r + w) < 20"
    by (simp add: word_less_nat_alt uc)
  show ?thesis
    using False nz tnz gt lt
    by (simp add: classify_io_pattern_def percent_io_pattern_def bpf_udiv_def Let_def r_def [symmetric] w_def [symmetric])
qed

lemma percent_thresholds:
  assumes "\<not> (r = 0 \<and> w = 0)"
  shows "percent_io_pattern r w = IO_PATTERN_READ_HEAVY \<longleftrightarrow> 81 * (r + w) \<le> 100 * r"
    and "percent_io_pattern r w = IO_PATTERN_WRITE_HEAVY \<longleftrightarrow> 100 * r < 20 * (r + w)"
proof -
  have pos: "0 < r + w" using assms by simp
  have a: "(100 * r) div (r + w) > 80 \<longleftrightarrow> 81 * (r + w) \<le> 100 * r"
    using less_eq_div_iff_mult_less_eq [OF pos, of 81 "100 * r"] by auto
  have b: "(100 * r) div (r + w) < 20 \<longleftrightarrow> 100 * r < 20 * (r + w)"
    using div_less_iff_less_mult [OF pos, of "100 * r" 20] by auto
  show "percent_io_pattern r w = IO_PATTERN_READ_HEAVY \<longleftrightarrow> 81 * (r + w) \<le> 100 * r"
    using assms a b by (auto simp: percent_io_pattern_def)
  show "percent_io_pattern r w = IO_PATTERN_WRITE_HEAVY \<longleftrightarrow> 100 * r < 20 * (r + w)"
    using assms a b by (auto simp: percent_io_pattern_def)
qed

lemma classify_ignores_io_pattern:
  "classify_io_pattern (Some (p\<lparr>io_pattern := x\<rparr>)) = classify_io_pattern (Some p)"
  by (simp add: classify_io_pattern_def)

lemma counters_bounded_no_overflow:
  assumes "counters_bounded p"
  shows "unat (read_bytes p) * 100 < 2 ^ 64" and "unat (read_bytes p) + unat (write_bytes p) < 2 ^ 64"
proof -
  have "unat (total_access_time p) < 2 ^ 64" by (rule unat_u64_lt)
  then have b: "1000 * unat (read_bytes p) + 2000 * unat (write_bytes p) < 2 ^ 64"
    using assms unfolding counters_bounded_def by linarith
  show "unat (read_bytes p) * 100 < 2 ^ 64" using b by linarith
  show "unat (read_bytes p) + unat (write_bytes p) < 2 ^ 64" using b by linarith
qed


lemma estimate_io_counters:
  assumes "counters_bounded pat"
  shows "counters_bounded (fst (estimate_io p pat))"
proof (cases "mm p \<and> se_sum_exec_runtime p > total_access_time pat")
  case False
  then show ?thesis using assms
    by (auto simp: estimate_io_def Let_def counters_bounded_def)
next
  case True
  define S where "S = se_sum_exec_runtime p"
  define T where "T = total_access_time pat"
  define d where "d = S - T"
  have lt: "T < S" using True by (simp add: S_def T_def)
  have ud: "unat d = unat S - unat T"
    unfolding d_def using lt by (simp add: unat_sub less_imp_le)
  have TS: "unat T < unat S" using lt by (simp add: word_less_nat_alt)
  have Slt: "unat S < 2 ^ 64" by (rule unat_u64_lt)
  have inv: "1000 * unat (read_bytes pat) + 2000 * unat (write_bytes pat) \<le> unat T"
    using assms by (simp add: counters_bounded_def T_def)
  define q1 where "q1 = unat d div 1000"
  define q2 where "q2 = unat d div 2000"
  have d1: "unat (d div 1000) = q1" by (simp add: unat_div q1_def)
  have d2: "unat (d div 2000) = q2" by (simp add: unat_div q2_def)
  have m1: "1000 * q1 \<le> unat d" by (simp add: q1_def)
  have m2: "2000 * q2 \<le> unat d" by (simp add: q2_def)
  have r: "unat (read_bytes pat + d div 1000) = unat (read_bytes pat) + q1"
  proof -
    have "unat (read_bytes pat) + unat (d div 1000) < 2 ^ 64"
      unfolding d1 using inv m1 ud TS Slt by linarith
    then show ?thesis using d1 by (simp add: unat_add_lem [THEN iffD1])
  qed
  have w: "unat (write_bytes pat + d div 2000) = unat (write_bytes pat) + q2"
  proof -
    have "unat (write_bytes pat) + unat (d div 2000) < 2 ^ 64"
      unfolding d2 using inv m2 ud TS Slt by linarith
    then show ?thesis using d2 by (simp add: unat_add_lem [THEN iffD1])
  qed
  have dT: "unat d + unat T = unat S" using ud TS by simp
  have R: "1000 * (unat (read_bytes pat) + q1) + 2000 * unat (write_bytes pat) \<le> unat S"
    unfolding distrib_left using inv m1 dT by linarith
  have W: "1000 * unat (read_bytes pat) + 2000 * (unat (write_bytes pat) + q2) \<le> unat S"
    unfolding distrib_left using inv m2 dT by linarith
  show ?thesis
    using True r w R W
    by (simp add: estimate_io_def Let_def counters_bounded_def S_def [symmetric] T_def [symmetric] d_def [symmetric])
qed

section \<open>The locality score\<close>

lemma estimate_io_locality:
  "locality_score (fst (estimate_io p pat)) = locality_score pat"
  by (simp add: estimate_io_def Let_def)

lemma locality_step_le:
  "locality_score pat \<le> 100 \<Longrightarrow> locality_score (locality_step d pat) \<le> 100"
  unfolding locality_step_def by (simp add: word_le_nat_alt word_less_nat_alt) unat_arith

lemma locality_boost_le:
  "locality_score pat \<le> 100 \<Longrightarrow> locality_score (locality_boost pat) \<le> 100"
  unfolding locality_boost_def by (simp add: word_le_nat_alt word_less_nat_alt) unat_arith

lemma locality_keeps:
  "read_bytes (locality_step d pat) = read_bytes pat"
  "write_bytes (locality_step d pat) = write_bytes pat"
  "total_access_time (locality_step d pat) = total_access_time pat"
  "io_pattern (locality_step d pat) = io_pattern pat"
  "read_bytes (locality_boost pat) = read_bytes pat"
  "write_bytes (locality_boost pat) = write_bytes pat"
  "total_access_time (locality_boost pat) = total_access_time pat"
  "io_pattern (locality_boost pat) = io_pattern pat"
  by (simp_all add: locality_step_def locality_boost_def)

lemma classify_counters_only:
  "read_bytes a = read_bytes b \<Longrightarrow> write_bytes a = write_bytes b \<Longrightarrow>
     classify_io_pattern (Some a) = classify_io_pattern (Some b)"
  by (simp add: classify_io_pattern_def)

lemma counters_bounded_cong:
  "read_bytes a = read_bytes b \<Longrightarrow> write_bytes a = write_bytes b \<Longrightarrow>
   total_access_time a = total_access_time b \<Longrightarrow> counters_bounded a = counters_bounded b"
  by (simp add: counters_bounded_def)

lemma unat_score_minus10:
  fixes x :: u32
  assumes "x > 10"
  shows "unat (x - 10) = unat x - 10"
  using assms by (simp add: unat_sub less_imp_le)

lemma unat_score_plus5:
  fixes x :: u32
  assumes "x \<le> 100"
  shows "unat (x + 5) = unat x + 5"
proof -
  have "unat x \<le> 100" using assms by (simp add: word_le_nat_alt)
  then have "unat x + unat (5 :: u32) < 2 ^ LENGTH(32)" by simp
  then have "unat (x + 5) = unat x + unat (5 :: u32)" by (simp only: unat_add_lem [THEN iffD1])
  then show ?thesis by simp
qed

lemma unat_locality_step:
  assumes "locality_score pat \<le> 100"
  shows "unat (locality_score (locality_step d pat)) =
           (if d > nr_accesses pat * 500 then unat (locality_score pat) - 10
            else if unat (locality_score pat) < 90 then unat (locality_score pat) + 5 else 100)"
proof -
  have a: "locality_score pat > 10 \<longleftrightarrow> unat (locality_score pat) > 10"
    by (simp add: word_less_nat_alt)
  have b: "locality_score pat < 90 \<longleftrightarrow> unat (locality_score pat) < 90"
    by (simp add: word_less_nat_alt)
  show ?thesis
    using a b unat_score_minus10 [of "locality_score pat"] unat_score_plus5 [OF assms]
    by (auto simp: locality_step_def)
qed

lemma unat_locality_boost:
  assumes "locality_score pat \<le> 100"
  shows "unat (locality_score (locality_boost pat)) =
           (if io_pattern pat = IO_PATTERN_READ_HEAVY \<or> io_pattern pat = IO_PATTERN_WRITE_HEAVY
            then min (unat (locality_score pat) + 5) 100 else unat (locality_score pat))"
proof -
  have b: "locality_score pat < 95 \<longleftrightarrow> unat (locality_score pat) < 95"
    by (simp add: word_less_nat_alt)
  have c: "unat (locality_score pat) \<le> 100" using assms by (simp add: word_le_nat_alt)
  show ?thesis
    using b c unat_score_plus5 [OF assms]
    by (auto simp: locality_boost_def)
qed

lemma locality_code_vs_spec:
  assumes "locality_score pat \<le> 100"
  shows "unat (locality_score (locality_boost (locality_step d pat))) =
           (if \<not> d > nr_accesses pat * 500 \<and>
               \<not> (io_pattern pat = IO_PATTERN_READ_HEAVY \<or> io_pattern pat = IO_PATTERN_WRITE_HEAVY) \<and>
               90 \<le> unat (locality_score pat) \<and> unat (locality_score pat) < 95
            then 100
            else spec_locality_update (unat (locality_score pat)) (d > nr_accesses pat * 500)
                   (io_pattern pat = IO_PATTERN_READ_HEAVY \<or> io_pattern pat = IO_PATTERN_WRITE_HEAVY))"
proof -
  have c: "unat (locality_score pat) \<le> 100" using assms by (simp add: word_le_nat_alt)
  have s: "locality_score (locality_step d pat) \<le> 100" using assms by (rule locality_step_le)
  show ?thesis
    unfolding unat_locality_boost [OF s] unat_locality_step [OF assms] locality_keeps
      spec_locality_update_def Let_def
    using c by auto
qed

section \<open>Every stored pattern is well formed\<close>

lemma observe_pattern_ok:
  assumes "counters_bounded pat" and "locality_score pat \<le> 100"
  shows "pattern_ok (observe_pattern t p pat)"
proof -
  define pat1 where "pat1 = pat\<lparr>nr_accesses := nr_accesses pat + 1, last_access_time := t\<rparr>"
  define pat2 where "pat2 = fst (estimate_io p pat1)"
  define d where "d = snd (estimate_io p pat1)"
  define pat3 where "pat3 = pat2\<lparr>io_pattern := classify_io_pattern (Some pat2)\<rparr>"
  have obs: "observe_pattern t p pat = locality_boost (locality_step d pat3)"
    by (simp add: observe_pattern_def Let_def pat1_def pat2_def d_def pat3_def split: prod.splits)
  have "counters_bounded pat1" using assms(1) by (simp add: pat1_def counters_bounded_def)
  then have c2: "counters_bounded pat2" unfolding pat2_def by (rule estimate_io_counters)
  then have c3: "counters_bounded pat3" by (simp add: pat3_def counters_bounded_def)
  have l3: "locality_score pat3 \<le> 100"
    using assms(2) by (simp add: pat3_def pat2_def estimate_io_locality pat1_def)
  have io3: "io_pattern pat3 = classify_io_pattern (Some pat3)"
    by (simp add: pat3_def classify_ignores_io_pattern)
  have "counters_bounded (locality_boost (locality_step d pat3))"
    using c3 counters_bounded_cong [of "locality_boost (locality_step d pat3)" pat3]
    by (simp add: locality_keeps)
  moreover have "locality_score (locality_boost (locality_step d pat3)) \<le> 100"
    using l3 by (intro locality_boost_le locality_step_le)
  moreover have "io_pattern (locality_boost (locality_step d pat3)) =
      classify_io_pattern (Some (locality_boost (locality_step d pat3)))"
    using io3 classify_counters_only [of "locality_boost (locality_step d pat3)" pat3]
    by (simp add: locality_keeps)
  ultimately show ?thesis unfolding obs pattern_ok_def by simp
qed

lemma first_pattern_ok:
  "pattern_ok (zero_pattern\<lparr>last_access_time := t, locality_score := 50, io_pattern := IO_PATTERN_UNKNOWN\<rparr>)"
  by (simp add: pattern_ok_def counters_bounded_def zero_pattern_def classify_io_pattern_def)

lemma update_damon_data_ok:
  assumes "\<forall>k q. m k = Some q \<longrightarrow> pattern_ok q"
      and "update_damon_data t ok pid p m k = Some q"
  shows "pattern_ok q"
proof (cases "m pid")
  case None
  then show ?thesis using assms first_pattern_ok [of t]
    by (auto simp: update_damon_data_def split: if_splits)
next
  case (Some pat)
  then have "pattern_ok pat" using assms(1) by blast
  then have "pattern_ok (observe_pattern t p pat)"
    by (intro observe_pattern_ok) (simp_all add: pattern_ok_def)
  then show ?thesis using assms Some
    by (auto simp: update_damon_data_def Let_def split: if_splits)
qed

lemma observe_all_ok:
  assumes "\<forall>k q. m k = Some q \<longrightarrow> pattern_ok q"
      and "observe_all obs m k = Some q"
  shows "pattern_ok q"
  using assms
proof (induction obs arbitrary: m)
  case Nil
  then show ?case by simp
next
  case (Cons ob obs)
  have "\<forall>k q. update_damon_data (obs_time ob) (obs_insert_ok ob) (obs_pid ob) (obs_task ob) m k = Some q
          \<longrightarrow> pattern_ok q"
    using update_damon_data_ok [OF Cons.prems(1)] by blast
  from Cons.IH [OF this] Cons.prems(2) show ?case by simp
qed

lemma reachable_pattern_ok:
  "observe_all obs Map.empty k = Some q \<Longrightarrow> pattern_ok q"
  by (rule observe_all_ok [of Map.empty]) simp_all


lemma observe_example:
  "observe_all [quiet_obs 1, (quiet_obs 2)\<lparr>obs_task := busy_task\<rparr>] Map.empty 7 =
     Some (zero_pattern\<lparr>nr_accesses := 1, total_access_time := 900000, last_access_time := 2,
              locality_score := 45, working_set_size := 5, read_bytes := 900,
              io_pattern := IO_PATTERN_READ_HEAVY\<rparr>)"
  by (simp add: quiet_obs_def busy_task_def quiet_task_def update_damon_data_def observe_pattern_def
      estimate_io_def classify_io_pattern_def bpf_udiv_def locality_step_def locality_boost_def
      zero_pattern_def Let_def)


lemma first_observation_score:
  "m pid = None \<Longrightarrow> update_damon_data t True pid p m pid = Some q \<Longrightarrow>
     locality_score q = 50 \<and> io_pattern q = IO_PATTERN_UNKNOWN"
  by (auto simp: update_damon_data_def)

section \<open>Divisions of the classification\<close>

text \<open>
  Where the checked classification returns a pattern, it is the one \<open>classify_io_pattern\<close>
  returns. It reports a division by zero exactly when the guard lets the pattern through
  and the 64-bit sum of the two counters is 0, which takes counters that add up to
  \<open>2^64\<close>.
\<close>

lemma checked_agrees:
  "classify_io_pattern_checked pattern = Inr x \<Longrightarrow> classify_io_pattern pattern = x"
  by (auto simp: classify_io_pattern_checked_def classify_io_pattern_def udiv_checked_def
        bpf_udiv_def Let_def split: option.splits if_splits)

lemma checked_fault_iff:
  "classify_io_pattern_checked (Some p) = Inl Division_by_zero \<longleftrightarrow>
     \<not> (read_bytes p = 0 \<and> write_bytes p = 0) \<and> read_bytes p + write_bytes p = 0"
  by (auto simp: classify_io_pattern_checked_def udiv_checked_def Let_def split: if_splits)

lemma checked_no_fault:
  assumes "unat (read_bytes p) + unat (write_bytes p) < 2 ^ 64"
  shows "classify_io_pattern_checked (Some p) = Inr (classify_io_pattern (Some p))"
proof (cases "classify_io_pattern_checked (Some p)")
  case (Inl e)
  then have f: "classify_io_pattern_checked (Some p) = Inl Division_by_zero"
    by (cases e) simp
  then have nz: "\<not> (read_bytes p = 0 \<and> write_bytes p = 0)"
    and z: "read_bytes p + write_bytes p = 0"
    by (simp_all add: checked_fault_iff)
  have "unat (read_bytes p + write_bytes p) = unat (read_bytes p) + unat (write_bytes p)"
    using assms by (simp add: unat_add_lem [THEN iffD1])
  then have "unat (read_bytes p) + unat (write_bytes p) = 0" using z by simp
  then have "read_bytes p = 0 \<and> write_bytes p = 0" by (simp add: unat_eq_0)
  then show ?thesis using nz by simp
next
  case (Inr x)
  then show ?thesis using checked_agrees by simp
qed

lemma estimate_io_arg_counters:
  assumes "counters_bounded q"
  shows "counters_bounded (fst (estimate_io p (q\<lparr>nr_accesses := nr_accesses q + 1, last_access_time := t\<rparr>)))"
proof -
  have "counters_bounded (q\<lparr>nr_accesses := nr_accesses q + 1, last_access_time := t\<rparr>)"
    using assms by (simp add: counters_bounded_def)
  then show ?thesis by (rule estimate_io_counters)
qed

text \<open>
  A record with \<open>read_bytes = 1\<close> and \<open>write_bytes = 2^64 - 1\<close> would pass the guard with a
  zero sum. The function is static and its one call, in \<open>update_damon_data\<close>, never hands
  it such a record: see the theorem on the classification's divisions.
\<close>

lemma checked_faults_on_wrapped_counters:
  "classify_io_pattern_checked (Some wrapping_pattern) = Inl Division_by_zero"
  by (simp add: checked_fault_iff wrapping_pattern_def zero_pattern_def)

section \<open>Claims on the access-pattern tracker\<close>

text \<open>
  C5, as the specification states it, fails: with 805 bytes read and 195 written the read
  share is 80.5 percent, above 80 percent, but the code compares the integer percentage
  80 and classifies the pattern as mixed.
\<close>

theorem io_pattern_mismatch_805_195:
  "classify_io_pattern (Some (zero_pattern\<lparr>read_bytes := 805, write_bytes := 195\<rparr>)) = IO_PATTERN_MIXED \<and>
   spec_io_pattern 805 195 = IO_PATTERN_READ_HEAVY"
  by (simp add: classify_io_pattern_def zero_pattern_def bpf_udiv_def Let_def spec_io_pattern_def)

text \<open>
  C5, amended. The classification is a function of the two counters alone: it is the
  classification on the integer percentage \<open>\<lfloor>100 r / (r + w)\<rfloor>\<close> whenever \<open>100 r\<close> and
  \<open>r + w\<close> fit in 64 bits, that is read-heavy from a read share of 81 percent on,
  write-heavy below 20 percent, mixed in between, unknown when both are zero. Recomputing
  it after storing it gives the same result, and in every pattern that a sequence of
  observations stores, the \<open>io_pattern\<close> field is this function of the stored counters.
\<close>

theorem io_pattern_is_percent_function:
  "(unat (read_bytes p) * 100 < 2 ^ 64 \<and> unat (read_bytes p) + unat (write_bytes p) < 2 ^ 64 \<longrightarrow>
      classify_io_pattern (Some p) = percent_io_pattern (unat (read_bytes p)) (unat (write_bytes p)))
   \<and> (\<not> (r = 0 \<and> w = 0) \<longrightarrow>
        (percent_io_pattern r w = IO_PATTERN_READ_HEAVY \<longleftrightarrow> 81 * (r + w) \<le> 100 * r) \<and>
        (percent_io_pattern r w = IO_PATTERN_WRITE_HEAVY \<longleftrightarrow> 100 * r < 20 * (r + w)))
   \<and> classify_io_pattern (Some (p\<lparr>io_pattern := classify_io_pattern (Some p)\<rparr>)) = classify_io_pattern (Some p)
   \<and> (observe_all obs Map.empty pid = Some q \<longrightarrow>
        io_pattern q = classify_io_pattern (Some q) \<and>
        io_pattern q = percent_io_pattern (unat (read_bytes q)) (unat (write_bytes q)))"
proof (intro conjI impI)
  assume "unat (read_bytes p) * 100 < 2 ^ 64 \<and> unat (read_bytes p) + unat (write_bytes p) < 2 ^ 64"
  then show "classify_io_pattern (Some p) = percent_io_pattern (unat (read_bytes p)) (unat (write_bytes p))"
    by (simp add: classify_percent)
next
  assume "\<not> (r = 0 \<and> w = 0)"
  then show "percent_io_pattern r w = IO_PATTERN_READ_HEAVY \<longleftrightarrow> 81 * (r + w) \<le> 100 * r"
    by (rule percent_thresholds)
next
  assume "\<not> (r = 0 \<and> w = 0)"
  then show "percent_io_pattern r w = IO_PATTERN_WRITE_HEAVY \<longleftrightarrow> 100 * r < 20 * (r + w)"
    by (rule percent_thresholds)
next
  show "classify_io_pattern (Some (p\<lparr>io_pattern := classify_io_pattern (Some p)\<rparr>)) = classify_io_pattern (Some p)"
    by (rule classify_ignores_io_pattern)
next
  assume "observe_all obs Map.empty pid = Some q"
  then have ok: "pattern_ok q" by (rule reachable_pattern_ok)
  then show "io_pattern q = classify_io_pattern (Some q)" by (simp add: pattern_ok_def)
  from ok have "counters_bounded q" by (simp add: pattern_ok_def)
  then have "classify_io_pattern (Some q) = percent_io_pattern (unat (read_bytes q)) (unat (write_bytes q))"
    by (intro classify_percent counters_bounded_no_overflow)
  then show "io_pattern q = percent_io_pattern (unat (read_bytes q)) (unat (write_bytes q))"
    using ok by (simp add: pattern_ok_def)
qed

theorem io_pattern_is_percent_function_witness:
  "unat (read_bytes read_heavy_example) * 100 < 2 ^ 64 \<and>
   unat (read_bytes read_heavy_example) + unat (write_bytes read_heavy_example) < 2 ^ 64 \<and>
   classify_io_pattern (Some read_heavy_example) = percent_io_pattern 900 0 \<and>
   \<not> ((900::nat) = 0 \<and> (100::nat) = 0) \<and>
   percent_io_pattern 900 100 = IO_PATTERN_READ_HEAVY \<and>
   percent_io_pattern 900 100 \<noteq> IO_PATTERN_WRITE_HEAVY \<and>
   observe_all [quiet_obs 1, (quiet_obs 2)\<lparr>obs_task := busy_task\<rparr>] Map.empty 7 = Some read_heavy_example \<and>
   io_pattern read_heavy_example = percent_io_pattern 900 0"
  using io_pattern_is_percent_function [of read_heavy_example 900 100
          "[quiet_obs 1, (quiet_obs 2)\<lparr>obs_task := busy_task\<rparr>]" 7 read_heavy_example]
        observe_example
  by (simp add: read_heavy_example_def zero_pattern_def)

text \<open>
  C10. The classification is total and never divides by zero. A missing pattern, and a
  pattern whose two counters are both zero, is classified unknown before any division:
  the checked run of \<open>classify_io_pattern\<close> returns \<open>IO_PATTERN_UNKNOWN\<close>, no fault.
  Whenever the checked run returns a pattern, \<open>classify_io_pattern\<close> returns the same.
  For every pattern \<open>q\<close> that a sequence of observations stores, the checked run on \<open>q\<close>
  returns the stored \<open>io_pattern\<close>, the divisor \<open>read_bytes + write_bytes\<close> is positive
  unless both counters are zero, and the one call of the function, made by the next
  observation of \<open>q\<close> on the pattern with its counters updated, returns without fault the
  \<open>io_pattern\<close> that this observation stores.
\<close>

theorem classify_never_divides_by_zero:
  "classify_io_pattern None = IO_PATTERN_UNKNOWN
   \<and> classify_io_pattern_checked None = Inr IO_PATTERN_UNKNOWN
   \<and> (read_bytes p = 0 \<and> write_bytes p = 0 \<longrightarrow>
        classify_io_pattern (Some p) = IO_PATTERN_UNKNOWN \<and>
        classify_io_pattern_checked (Some p) = Inr IO_PATTERN_UNKNOWN)
   \<and> (classify_io_pattern_checked pattern = Inr x \<longrightarrow> classify_io_pattern pattern = x)
   \<and> (observe_all obs Map.empty pid = Some q \<longrightarrow>
        classify_io_pattern_checked (Some q) = Inr (io_pattern q) \<and>
        (\<not> (read_bytes q = 0 \<and> write_bytes q = 0) \<longrightarrow> 0 < unat (read_bytes q + write_bytes q)) \<and>
        classify_io_pattern_checked
          (Some (fst (estimate_io tsk (q\<lparr>nr_accesses := nr_accesses q + 1, last_access_time := t\<rparr>)))) =
        Inr (io_pattern (observe_pattern t tsk q)))"
proof (intro conjI impI)
  show "classify_io_pattern None = IO_PATTERN_UNKNOWN"
    by (simp add: classify_io_pattern_def)
next
  show "classify_io_pattern_checked None = Inr IO_PATTERN_UNKNOWN"
    by (simp add: classify_io_pattern_checked_def)
next
  assume z: "read_bytes p = 0 \<and> write_bytes p = 0"
  then show "classify_io_pattern (Some p) = IO_PATTERN_UNKNOWN"
    by (simp add: classify_io_pattern_def)
  from z show "classify_io_pattern_checked (Some p) = Inr IO_PATTERN_UNKNOWN"
    by (simp add: classify_io_pattern_checked_def)
next
  assume "classify_io_pattern_checked pattern = Inr x"
  then show "classify_io_pattern pattern = x" by (rule checked_agrees)
next
  assume r: "observe_all obs Map.empty pid = Some q"
  then have ok: "pattern_ok q" by (rule reachable_pattern_ok)
  then have cb: "counters_bounded q" and io: "io_pattern q = classify_io_pattern (Some q)"
    by (simp_all add: pattern_ok_def)
  have nw: "unat (read_bytes q) + unat (write_bytes q) < 2 ^ 64"
    using cb by (rule counters_bounded_no_overflow)
  show "classify_io_pattern_checked (Some q) = Inr (io_pattern q)"
    using checked_no_fault [OF nw] io by simp
  show "0 < unat (read_bytes q + write_bytes q)"
    if "\<not> (read_bytes q = 0 \<and> write_bytes q = 0)"
  proof -
    have "unat (read_bytes q + write_bytes q) = unat (read_bytes q) + unat (write_bytes q)"
      using nw by (simp add: unat_add_lem [THEN iffD1])
    moreover have "0 < unat (read_bytes q) + unat (write_bytes q)"
      using that by (auto simp: unat_gt_0)
    ultimately show ?thesis by simp
  qed
  let ?arg = "fst (estimate_io tsk (q\<lparr>nr_accesses := nr_accesses q + 1, last_access_time := t\<rparr>))"
  have "counters_bounded ?arg" using cb by (rule estimate_io_arg_counters)
  then have "unat (read_bytes ?arg) + unat (write_bytes ?arg) < 2 ^ 64"
    by (rule counters_bounded_no_overflow)
  then have c: "classify_io_pattern_checked (Some ?arg) = Inr (classify_io_pattern (Some ?arg))"
    by (rule checked_no_fault)
  have "io_pattern (observe_pattern t tsk q) = classify_io_pattern (Some ?arg)"
    by (simp add: observe_pattern_def Let_def locality_keeps split: prod.splits)
  then show "classify_io_pattern_checked (Some ?arg) = Inr (io_pattern (observe_pattern t tsk q))"
    using c by simp
qed

theorem classify_never_divides_by_zero_witness:
  "read_bytes zero_pattern = 0 \<and> write_bytes zero_pattern = 0 \<and>
   classify_io_pattern (Some zero_pattern) = IO_PATTERN_UNKNOWN \<and>
   classify_io_pattern_checked (Some zero_pattern) = Inr IO_PATTERN_UNKNOWN \<and>
   classify_io_pattern_checked (Some pattern_900_100) = Inr IO_PATTERN_READ_HEAVY \<and>
   classify_io_pattern (Some pattern_900_100) = IO_PATTERN_READ_HEAVY \<and>
   observe_all [quiet_obs 1, (quiet_obs 2)\<lparr>obs_task := busy_task\<rparr>] Map.empty 7 = Some read_heavy_example \<and>
   classify_io_pattern_checked (Some read_heavy_example) = Inr IO_PATTERN_READ_HEAVY \<and>
   \<not> (read_bytes read_heavy_example = 0 \<and> write_bytes read_heavy_example = 0) \<and>
   0 < unat (read_bytes read_heavy_example + write_bytes read_heavy_example)"
proof -
  have c: "classify_io_pattern_checked (Some pattern_900_100) = Inr IO_PATTERN_READ_HEAVY"
    by (simp add: classify_io_pattern_checked_def udiv_checked_def pattern_900_100_def
        zero_pattern_def Let_def)
  show ?thesis
    using classify_never_divides_by_zero [where p = zero_pattern
            and pattern = "Some pattern_900_100" and x = IO_PATTERN_READ_HEAVY
            and obs = "[quiet_obs 1, (quiet_obs 2)\<lparr>obs_task := busy_task\<rparr>]" and pid = 7
            and q = read_heavy_example and tsk = quiet_task and t = 3]
          observe_example c
    by (simp add: read_heavy_example_def zero_pattern_def)
qed

text \<open>
  C7 at the input where the code departs from it. After a first observation and eight
  quiet ones the stored score is 90; the next quiet observation (no execution time, so
  \<open>exec_delta = 0\<close>, pattern unknown) sets it to 100, where an increase by 5 with
  ceiling 100 gives 95: the first adjustment tests \<open>locality_score < 90\<close>, the second one
  \<open>locality_score < 95\<close>.
\<close>

theorem locality_jumps_from_90_to_100:
  "observe_all [quiet_obs 1, quiet_obs 2, quiet_obs 3, quiet_obs 4, quiet_obs 5, quiet_obs 6, quiet_obs 7, quiet_obs 8, quiet_obs 9] Map.empty 7 = Some score90 \<and>
   locality_score (observe_pattern 10 quiet_task score90) = 100 \<and>
   spec_locality_update 90 False False = 95"
  by (simp add: quiet_obs_def quiet_task_def update_damon_data_def observe_pattern_def
      estimate_io_def classify_io_pattern_def bpf_udiv_def locality_step_def locality_boost_def
      zero_pattern_def Let_def score90_def spec_locality_update_def)

text \<open>
  C8. After any sequence of observations, starting from the empty map (so that each pid's
  first observation stores the score 50), every stored locality score is within 0 and 100.
\<close>

theorem locality_score_in_range:
  assumes "observe_all obs Map.empty pid = Some pat"
  shows "0 \<le> uint (locality_score pat) \<and> uint (locality_score pat) \<le> 100"
proof -
  have "pattern_ok pat" using assms by (rule reachable_pattern_ok)
  then have "locality_score pat \<le> 100" by (simp add: pattern_ok_def)
  then show ?thesis by (simp add: word_le_def)
qed

theorem locality_score_in_range_witness:
  "observe_all [quiet_obs 1, (quiet_obs 2)\<lparr>obs_task := busy_task\<rparr>] Map.empty 7 = Some read_heavy_example \<and>
   uint (locality_score read_heavy_example) = 45 \<and>
   0 \<le> uint (locality_score read_heavy_example) \<and> uint (locality_score read_heavy_example) \<le> 100"
proof -
  have h: "observe_all [quiet_obs 1, (quiet_obs 2)\<lparr>obs_task := busy_task\<rparr>] Map.empty 7 = Some read_heavy_example"
    using observe_example by (simp add: read_heavy_example_def)
  show ?thesis
    using h locality_score_in_range [OF h] by (simp add: read_heavy_example_def)
qed

section \<open>The order of virtual times\<close>

lemma vtime_before_irrefl: "\<not> vtime_before a a"
  by (simp add: vtime_before_def)

lemma sint_word_of_int_window:
  assumes "- (2 ^ 63) \<le> k" and "k < 2 ^ 63"
  shows "sint (word_of_int k :: u64) = k"
  using assms by (simp add: sint_sbintrunc' signed_take_bit_int_eq_self)

lemma sint_u64_bounds:
  fixes x :: u64
  shows "- (2 ^ 63) \<le> sint x" and "sint x < 2 ^ 63"
  using sint_ge [of x] sint_lt [of x] by simp_all

lemma sint_antipode: "sint (2 ^ 63 :: u64) = - (2 ^ 63)"
  by simp

lemma sint_neg:
  fixes x :: u64
  assumes "x \<noteq> 2 ^ 63"
  shows "sint (- x) = - sint x"
proof -
  have "sint x \<noteq> sint (2 ^ 63 :: u64)" using assms by (simp only: word_eq_iff_signed [symmetric] not_False_eq_True)
  then have ne: "sint x \<noteq> - (2 ^ 63)" by simp
  have a: "- (2 ^ 63) \<le> - sint x" using sint_u64_bounds(2) [of x] by linarith
  have b: "- sint x < 2 ^ 63" using sint_u64_bounds(1) [of x] ne by linarith
  have "sint (- x) = signed_take_bit 63 (- sint x)" by (simp add: sint_word_minus)
  then show ?thesis using a b by (simp add: signed_take_bit_int_eq_self)
qed

lemma vtime_before_asym:
  assumes "vtime_before a b" and "a - b \<noteq> 2 ^ 63"
  shows "\<not> vtime_before b a"
proof -
  have "b - a = - (a - b)" by simp
  then have "sint (b - a) = - sint (a - b)" using sint_neg [OF assms(2)] by simp
  then show ?thesis using assms(1) by (simp add: vtime_before_def)
qed

lemma vtime_max_code: "vtime_max a b = (if vtime_before a b then b else a)"
proof (cases "vtime_before a b")
  case True
  then have "max (sint (a - b)) 0 = 0" by (simp add: vtime_before_def)
  then show ?thesis using True by (simp add: vtime_max_def)
next
  case False
  then have "max (sint (a - b)) 0 = sint (a - b)" by (simp add: vtime_before_def)
  then show ?thesis using False by (simp add: vtime_max_def)
qed

lemma vtime_max_not_before: "\<not> vtime_before (vtime_max a b) b"
  unfolding vtime_max_code by (simp add: vtime_before_irrefl)

lemma vtime_before_window:
  assumes "- (2 ^ 63) \<le> A - B" and "A - B < 2 ^ 63"
  shows "vtime_before (word_of_int A) (word_of_int B) \<longleftrightarrow> A < B"
proof -
  have "(word_of_int A :: u64) - word_of_int B = word_of_int (A - B)" by simp
  then show ?thesis using sint_word_of_int_window [OF assms] by (simp add: vtime_before_def)
qed

lemma vtime_before_uint:
  fixes a b :: u64
  assumes "uint a < 2 ^ 63" and "uint b < 2 ^ 63"
  shows "vtime_before a b \<longleftrightarrow> uint a < uint b"
proof -
  have "- (2 ^ 63) \<le> uint a - uint b" "uint a - uint b < 2 ^ 63"
    using assms uint_ge_0 [of a] uint_ge_0 [of b] by linarith+
  from vtime_before_window [OF this] show ?thesis by simp
qed

lemma vtime_max_window:
  assumes "- (2 ^ 63) \<le> A - B" and "A - B < 2 ^ 63"
  shows "vtime_max (word_of_int A) (word_of_int B) = word_of_int (max A B)"
  unfolding vtime_max_code vtime_before_window [OF assms] by (simp add: max_def)


lemma sint_eq_uint_small:
  fixes c :: u64
  assumes "uint c < 2 ^ 63"
  shows "sint c = uint c"
proof -
  have "sint (word_of_int (uint c) :: u64) = uint c"
  proof (rule sint_word_of_int_window)
    have "- (2 ^ 63) \<le> (0 :: int)" by simp
    then show "- (2 ^ 63) \<le> uint c" using uint_ge_0 [of c] by linarith
    show "uint c < 2 ^ 63" by (rule assms)
  qed
  then show ?thesis by simp
qed

lemma not_before_add:
  fixes a c :: u64
  assumes "uint c < 2 ^ 63"
  shows "\<not> vtime_before (a + c) a"
  using sint_eq_uint_small [OF assms] by (simp add: vtime_before_def)



section \<open>Signed values inside the window\<close>









section \<open>Enqueue of the minimal scheduler\<close>

lemma cxl_enqueue_fallback:
  assumes "task_ctx_stor st p = None" and "\<not> alloc_ok"
  shows "cxl_enqueue S alloc_ok p f st = scx_bpf_dsq_insert p FALLBACK_DSQ_ID S f st"
  using assms by (simp add: cxl_enqueue_def bpf_task_storage_get_def Let_def)

text \<open>
  With a task context \<open>c\<close> (found or created, then typed), the enqueue is an insertion
  by virtual time.
\<close>

lemma cxl_enqueue_vtime_path:
  assumes "task_ctx_stor st p \<noteq> None \<or> alloc_ok"
  shows "\<exists>c. cxl_enqueue S alloc_ok p f st =
           scx_bpf_dsq_insert_vtime p FALLBACK_DSQ_ID S
             (vtime_max (scx_dsq_vtime (tasks st p)) (global_vtime st - S)
                - (if is_vectordb c then S else 0) + (if is_kworker c then S else 0))
             f (st\<lparr>task_ctx_stor := (task_ctx_stor st)(p \<mapsto> c)\<rparr>)"
proof -
  define c0 where "c0 = (case task_ctx_stor st p of
                           Some x \<Rightarrow> x | None \<Rightarrow> \<lparr>is_vectordb = False, is_kworker = False\<rparr>)"
  define c where "c = (if \<not> is_vectordb c0 \<and> \<not> is_kworker c0
                       then c0\<lparr>is_vectordb := is_vectordb_task (tasks st p),
                               is_kworker := is_kworker_task (tasks st p)\<rparr>
                       else c0)"
  have got: "bpf_task_storage_get (task_ctx_stor st) p True alloc_ok =
               (Some c0, (task_ctx_stor st)(p \<mapsto> c0))"
    using assms by (auto simp: bpf_task_storage_get_def c0_def split: option.splits)
  have "cxl_enqueue S alloc_ok p f st =
           scx_bpf_dsq_insert_vtime p FALLBACK_DSQ_ID S
             (vtime_max (scx_dsq_vtime (tasks st p)) (global_vtime st - S)
                - (if is_vectordb c then S else 0) + (if is_kworker c then S else 0))
             f (st\<lparr>task_ctx_stor := (task_ctx_stor st)(p \<mapsto> c)\<rparr>)"
  proof (cases "\<not> is_vectordb c0 \<and> \<not> is_kworker c0")
    case True
    then have "c = c0\<lparr>is_vectordb := is_vectordb_task (tasks st p),
                        is_kworker := is_kworker_task (tasks st p)\<rparr>"
      by (simp add: c_def)
    then show ?thesis
      unfolding cxl_enqueue_def got vtime_max_code using True by (simp add: Let_def)
  next
    case False
    then have "c = c0" by (simp only: c_def if_False)
    then show ?thesis
      unfolding cxl_enqueue_def got vtime_max_code using False by (auto simp add: Let_def)
  qed
  then show ?thesis by blast
qed





text \<open>
  A task without a context gets one typed from its name; a context that is already typed
  keeps its flags.
\<close>

lemma cxl_enqueue_ctx:
  assumes "task_ctx_stor st p \<noteq> None \<or> alloc_ok"
  shows "task_ctx_stor (cxl_enqueue S alloc_ok p f st) p =
           Some (let c0 = (case task_ctx_stor st p of
                             Some x \<Rightarrow> x
                           | None \<Rightarrow> \<lparr>is_vectordb = False, is_kworker = False\<rparr>)
                 in if \<not> is_vectordb c0 \<and> \<not> is_kworker c0
                    then c0\<lparr>is_vectordb := is_vectordb_task (tasks st p),
                            is_kworker := is_kworker_task (tasks st p)\<rparr>
                    else c0)"
  using assms
  by (auto simp: cxl_enqueue_def bpf_task_storage_get_def scx_bpf_dsq_insert_vtime_def Let_def
           split: option.splits)

text \<open>
  When \<open>cxl_init_task\<close> fails for want of memory it returns \<open>-ENOMEM\<close> and leaves the
  state as it was; an enqueue that cannot allocate either still queues the task, in FIFO
  order.
\<close>

lemma init_failure_then_enqueue:
  assumes "task_ctx_stor st p = None"
  shows "cxl_init_task False p st = (- 12, st)"
    and "dsqs (cxl_enqueue S False p f (snd (cxl_init_task False p st))) FALLBACK_DSQ_ID =
           dsqs st FALLBACK_DSQ_ID @ [\<lparr>e_task = p, e_vtime = None, e_enq_flags = f\<rparr>]"
proof -
  show i: "cxl_init_task False p st = (- 12, st)"
    using assms by (simp add: cxl_init_task_def bpf_task_storage_get_def)
  show "dsqs (cxl_enqueue S False p f (snd (cxl_init_task False p st))) FALLBACK_DSQ_ID =
           dsqs st FALLBACK_DSQ_ID @ [\<lparr>e_task = p, e_vtime = None, e_enq_flags = f\<rparr>]"
    unfolding i using assms by (simp add: cxl_enqueue_fallback scx_bpf_dsq_insert_def)
qed

text \<open>
  The enqueue of the minimal scheduler appends the task exactly once, to the fallback
  queue, and changes no other queue; when no task context can be obtained the entry is a
  FIFO entry.
\<close>

lemma cxl_enqueue_places_task_once:
  "\<exists>e. e_task e = p \<and> e_enq_flags e = f \<and>
       dsqs (cxl_enqueue S alloc_ok p f st) =
         (dsqs st)(FALLBACK_DSQ_ID := dsqs st FALLBACK_DSQ_ID @ [e]) \<and>
       (task_ctx_stor st p = None \<and> \<not> alloc_ok \<longrightarrow> e_vtime e = None)"
proof (cases "task_ctx_stor st p \<noteq> None \<or> alloc_ok")
  case True
  from cxl_enqueue_vtime_path [OF True, of S f] obtain c where
    "cxl_enqueue S alloc_ok p f st =
           scx_bpf_dsq_insert_vtime p FALLBACK_DSQ_ID S
             (vtime_max (scx_dsq_vtime (tasks st p)) (global_vtime st - S)
                - (if is_vectordb c then S else 0) + (if is_kworker c then S else 0))
             f (st\<lparr>task_ctx_stor := (task_ctx_stor st)(p \<mapsto> c)\<rparr>)" by blast
  then show ?thesis using True
    by (auto simp: scx_bpf_dsq_insert_vtime_def intro!: exI)
next
  case False
  then show ?thesis
    by (intro exI [of _ "\<lparr>e_task = p, e_vtime = None, e_enq_flags = f\<rparr>"])
       (simp add: cxl_enqueue_fallback scx_bpf_dsq_insert_def)
qed

text \<open>
  C1 on cxl\_pmu.bpf.c: its enqueue returns with the task in no queue. Whatever the task
  and the flags, the queues are what they were; a task enqueued while all queues are empty
  is not in the fallback queue afterwards.
\<close>

theorem pmu_cxl_enqueue_inserts_nothing:
  "pmu_cxl_enqueue p enq_flags queues = queues \<and>
   pmu_cxl_enqueue 7 0 (\<lambda>_. []) FALLBACK_DSQ_ID = []"
  by (simp add: pmu_cxl_enqueue_def)

lemma spec_enqueue_vtime_window:
  fixes v g S :: u64
  assumes "- (2 ^ 63) \<le> uint v - (uint g - uint S)" and "uint v - (uint g - uint S) < 2 ^ 63"
  shows "spec_enqueue_vtime v g S bonus penalty =
           word_of_int (spec_enqueue_vtime_int (uint v) (uint g) (uint S) bonus penalty)"
proof -
  have "vtime_max (word_of_int (uint v)) (word_of_int (uint g - uint S)) =
          (word_of_int (max (uint v) (uint g - uint S)) :: u64)"
    by (rule vtime_max_window [OF assms])
  then have m: "vtime_max v (g - S) = word_of_int (max (uint v) (uint g - uint S))"
    by simp
  show ?thesis
    unfolding spec_enqueue_vtime_def spec_enqueue_vtime_int_def m by simp
qed


text \<open>
  C4, as stated, fails in two ways. The maximum is taken by \<open>vtime_before\<close>, not on the
  numbers: a task whose virtual time is \<open>2^63\<close>, with \<open>global_vtime - slice = 0\<close>, counts
  as before the clamp point and is inserted with virtual time \<open>0\<close>, where the formula
  gives \<open>2^63\<close>. And not every enqueue uses the formula: the kernel worker 12, enqueued
  when no task context can be obtained, is inserted in FIFO order, without a virtual time
  and without the penalty that the formula prescribes (\<open>60000000\<close>); its virtual time
  stays as it was.
\<close>

theorem enqueue_vtime_not_integer_max:
  "scx_dsq_vtime (tasks antipode_state 3) = 9223372036854775808 \<and>
   global_vtime antipode_state - 20000000 = 0 \<and>
   task_ctx_stor (cxl_enqueue 20000000 True 3 0 antipode_state) 3 =
     Some \<lparr>is_vectordb = False, is_kworker = False\<rparr> \<and>
   dsqs (cxl_enqueue 20000000 True 3 0 antipode_state) FALLBACK_DSQ_ID =
     [\<lparr>e_task = 3, e_vtime = Some 0, e_enq_flags = 0\<rparr>] \<and>
   spec_enqueue_vtime_int (uint (scx_dsq_vtime (tasks antipode_state 3)))
     (uint (global_vtime antipode_state)) (uint (20000000 :: u64)) False False
     = 9223372036854775808 \<and>
   (word_of_int 9223372036854775808 :: u64) = 9223372036854775808 \<and>
   is_kworker_task (tasks example_state 12) \<and>
   dsqs (cxl_enqueue 20000000 False 12 0 example_state) FALLBACK_DSQ_ID =
     [\<lparr>e_task = 12, e_vtime = None, e_enq_flags = 0\<rparr>] \<and>
   scx_dsq_vtime (tasks (cxl_enqueue 20000000 False 12 0 example_state) 12) =
     scx_dsq_vtime (tasks example_state 12) \<and>
   spec_enqueue_vtime (scx_dsq_vtime (tasks example_state 12)) (global_vtime example_state)
     20000000 False True = 60000000"
  by (simp add: cxl_enqueue_def bpf_task_storage_get_def antipode_state_def example_state_def
      example_task_def is_vectordb_task_def is_kworker_task_def comm_byte_def vtime_before_def
      scx_bpf_dsq_insert_vtime_def scx_bpf_dsq_insert_def set_slice_def FALLBACK_DSQ_ID_def
      spec_enqueue_vtime_int_def spec_enqueue_vtime_def vtime_max_code Let_def)

text \<open>
  C4, amended. An enqueue that obtains no task context (none stored and none can be
  allocated) appends a FIFO entry without a virtual time, stores no context and leaves
  the task's virtual time as it was. Every other enqueue works on the context \<open>c\<close>: the
  stored one, or a fresh one, with both marks taken from the task's name when it has
  neither. It stores \<open>c\<close>, and the entry it appends and the task's \<open>dsq_vtime\<close> carry the
  virtual time \<open>r = m - (S if c marks a vector database) + (S if c marks a kernel worker)\<close>
  in 64-bit arithmetic, where \<open>m\<close> is the later of the current virtual time \<open>v\<close> and the
  clamp point \<open>b = global_vtime - S\<close> in the order of \<open>vtime_before\<close>: \<open>m\<close> is one of the
  two, it is not before \<open>b\<close>, and it is not before \<open>v\<close> unless \<open>v\<close> is exactly \<open>2^63\<close> away
  from \<open>b\<close>. So \<open>r\<close> is at most one slice away from \<open>m\<close>. When \<open>v\<close> is within \<open>2^63\<close> of the
  clamp point, \<open>r\<close> is the specification's formula over the integers, modulo \<open>2^64\<close>.
\<close>

theorem enqueue_vtime_every_path:
  "(if task_ctx_stor st p = None \<and> \<not> alloc_ok
    then dsqs (cxl_enqueue S alloc_ok p f st) FALLBACK_DSQ_ID =
           dsqs st FALLBACK_DSQ_ID @ [\<lparr>e_task = p, e_vtime = None, e_enq_flags = f\<rparr>] \<and>
         scx_dsq_vtime (tasks (cxl_enqueue S alloc_ok p f st) p) = scx_dsq_vtime (tasks st p) \<and>
         task_ctx_stor (cxl_enqueue S alloc_ok p f st) p = None
    else
      (let c0 = (case task_ctx_stor st p of
                   Some x \<Rightarrow> x
                 | None \<Rightarrow> \<lparr>is_vectordb = False, is_kworker = False\<rparr>);
           c = (if \<not> is_vectordb c0 \<and> \<not> is_kworker c0
                then c0\<lparr>is_vectordb := is_vectordb_task (tasks st p),
                        is_kworker := is_kworker_task (tasks st p)\<rparr>
                else c0);
           v = scx_dsq_vtime (tasks st p);
           b = global_vtime st - S;
           m = vtime_max v b;
           r = spec_enqueue_vtime v (global_vtime st) S (is_vectordb c) (is_kworker c)
       in task_ctx_stor (cxl_enqueue S alloc_ok p f st) p = Some c \<and>
          dsqs (cxl_enqueue S alloc_ok p f st) FALLBACK_DSQ_ID =
            dsqs st FALLBACK_DSQ_ID @ [\<lparr>e_task = p, e_vtime = Some r, e_enq_flags = f\<rparr>] \<and>
          scx_dsq_vtime (tasks (cxl_enqueue S alloc_ok p f st) p) = r \<and>
          r = m - (if is_vectordb c then S else 0) + (if is_kworker c then S else 0) \<and>
          (m = v \<or> m = b) \<and>
          \<not> vtime_before m b \<and>
          (v - b \<noteq> 2 ^ 63 \<longrightarrow> \<not> vtime_before m v) \<and>
          r - m \<in> {0, S, - S} \<and>
          (- (2 ^ 63) \<le> uint v - (uint (global_vtime st) - uint S) \<and>
           uint v - (uint (global_vtime st) - uint S) < 2 ^ 63 \<longrightarrow>
             r = word_of_int (spec_enqueue_vtime_int (uint v) (uint (global_vtime st)) (uint S)
                                (is_vectordb c) (is_kworker c)))))"
proof (cases "task_ctx_stor st p = None \<and> \<not> alloc_ok")
  case True
  then have e: "cxl_enqueue S alloc_ok p f st = scx_bpf_dsq_insert p FALLBACK_DSQ_ID S f st"
    by (simp add: cxl_enqueue_fallback)
  show ?thesis using True unfolding e
    by (simp add: scx_bpf_dsq_insert_def set_slice_def)
next
  case False
  then have h: "task_ctx_stor st p \<noteq> None \<or> alloc_ok" by auto
  define c0 where "c0 = (case task_ctx_stor st p of
                   Some x \<Rightarrow> x
                 | None \<Rightarrow> \<lparr>is_vectordb = False, is_kworker = False\<rparr>)"
  define c where "c = (if \<not> is_vectordb c0 \<and> \<not> is_kworker c0
                then c0\<lparr>is_vectordb := is_vectordb_task (tasks st p),
                        is_kworker := is_kworker_task (tasks st p)\<rparr>
                else c0)"
  define v where "v = scx_dsq_vtime (tasks st p)"
  define b where "b = global_vtime st - S"
  define m where "m = vtime_max v b"
  define r where "r = spec_enqueue_vtime v (global_vtime st) S (is_vectordb c) (is_kworker c)"
  have 1: "task_ctx_stor (cxl_enqueue S alloc_ok p f st) p = Some c"
    using cxl_enqueue_ctx [OF h, of S f] by (simp add: c_def c0_def Let_def)
  from cxl_enqueue_vtime_path [OF h, of S f] obtain c' where
    e: "cxl_enqueue S alloc_ok p f st =
           scx_bpf_dsq_insert_vtime p FALLBACK_DSQ_ID S
             (vtime_max (scx_dsq_vtime (tasks st p)) (global_vtime st - S)
                - (if is_vectordb c' then S else 0) + (if is_kworker c' then S else 0))
             f (st\<lparr>task_ctx_stor := (task_ctx_stor st)(p \<mapsto> c')\<rparr>)" by blast
  have cc: "c' = c" using 1 unfolding e by (simp add: scx_bpf_dsq_insert_vtime_def)
  have 2: "dsqs (cxl_enqueue S alloc_ok p f st) FALLBACK_DSQ_ID =
            dsqs st FALLBACK_DSQ_ID @ [\<lparr>e_task = p, e_vtime = Some r, e_enq_flags = f\<rparr>]"
    unfolding e cc by (simp add: scx_bpf_dsq_insert_vtime_def r_def spec_enqueue_vtime_def v_def)
  have 3: "scx_dsq_vtime (tasks (cxl_enqueue S alloc_ok p f st) p) = r"
    unfolding e cc by (simp add: scx_bpf_dsq_insert_vtime_def r_def spec_enqueue_vtime_def v_def)
  have 9: "r = m - (if is_vectordb c then S else 0) + (if is_kworker c then S else 0)"
    by (simp add: r_def m_def b_def spec_enqueue_vtime_def)
  have 4: "m = v \<or> m = b" by (simp add: m_def vtime_max_code)
  have 5: "\<not> vtime_before m b" unfolding m_def by (rule vtime_max_not_before)
  have 6: "v - b \<noteq> 2 ^ 63 \<longrightarrow> \<not> vtime_before m v"
    using vtime_before_asym [of v b]
    by (auto simp: m_def vtime_max_code vtime_before_irrefl)
  have 7: "r - m \<in> {0, S, - S}"
    by (simp add: r_def m_def b_def spec_enqueue_vtime_def)
  have 8: "- (2 ^ 63) \<le> uint v - (uint (global_vtime st) - uint S) \<and>
           uint v - (uint (global_vtime st) - uint S) < 2 ^ 63 \<longrightarrow>
             r = word_of_int (spec_enqueue_vtime_int (uint v) (uint (global_vtime st)) (uint S)
                                (is_vectordb c) (is_kworker c))"
    unfolding r_def using spec_enqueue_vtime_window by blast
  have all: "task_ctx_stor (cxl_enqueue S alloc_ok p f st) p = Some c \<and>
          dsqs (cxl_enqueue S alloc_ok p f st) FALLBACK_DSQ_ID =
            dsqs st FALLBACK_DSQ_ID @ [\<lparr>e_task = p, e_vtime = Some r, e_enq_flags = f\<rparr>] \<and>
          scx_dsq_vtime (tasks (cxl_enqueue S alloc_ok p f st) p) = r \<and>
          r = m - (if is_vectordb c then S else 0) + (if is_kworker c then S else 0) \<and>
          (m = v \<or> m = b) \<and>
          \<not> vtime_before m b \<and>
          (v - b \<noteq> 2 ^ 63 \<longrightarrow> \<not> vtime_before m v) \<and>
          r - m \<in> {0, S, - S} \<and>
          (- (2 ^ 63) \<le> uint v - (uint (global_vtime st) - uint S) \<and>
           uint v - (uint (global_vtime st) - uint S) < 2 ^ 63 \<longrightarrow>
             r = word_of_int (spec_enqueue_vtime_int (uint v) (uint (global_vtime st)) (uint S)
                                (is_vectordb c) (is_kworker c)))"
    by (intro conjI 1 2 3 9 4 5 6 7 8)
  show ?thesis
    unfolding Let_def if_not_P [OF False]
    by (rule all [unfolded r_def m_def b_def v_def c_def c0_def])
qed

theorem enqueue_vtime_every_path_witness:
  "task_ctx_stor example_state 12 = None \<and>
   dsqs (cxl_enqueue 20000000 False 12 0 example_state) FALLBACK_DSQ_ID =
     [\<lparr>e_task = 12, e_vtime = None, e_enq_flags = 0\<rparr>] \<and>
   scx_dsq_vtime (tasks (cxl_enqueue 20000000 False 12 0 example_state) 12) = 40000000 \<and>
   task_ctx_stor example_state 11 = None \<and>
   is_vectordb_task (tasks example_state 11) \<and>
   task_ctx_stor (cxl_enqueue 20000000 True 11 0 example_state) 11 =
     Some \<lparr>is_vectordb = True, is_kworker = False\<rparr> \<and>
   dsqs (cxl_enqueue 20000000 True 11 0 example_state) FALLBACK_DSQ_ID =
     [\<lparr>e_task = 11, e_vtime = Some 10000000, e_enq_flags = 0\<rparr>] \<and>
   scx_dsq_vtime (tasks (cxl_enqueue 20000000 True 11 0 example_state) 11) = 10000000 \<and>
   scx_dsq_vtime (tasks example_state 11) - (global_vtime example_state - 20000000) \<noteq> 2 ^ 63 \<and>
   \<not> vtime_before (vtime_max (scx_dsq_vtime (tasks example_state 11)) (global_vtime example_state - 20000000))
       (scx_dsq_vtime (tasks example_state 11)) \<and>
   - (2 ^ 63) \<le> uint (scx_dsq_vtime (tasks example_state 11)) - (uint (global_vtime example_state) - uint (20000000 :: u64)) \<and>
   uint (scx_dsq_vtime (tasks example_state 11)) - (uint (global_vtime example_state) - uint (20000000 :: u64)) < 2 ^ 63 \<and>
   spec_enqueue_vtime (scx_dsq_vtime (tasks example_state 11)) (global_vtime example_state) 20000000 True False =
     word_of_int (spec_enqueue_vtime_int 10000000 50000000 20000000 True False) \<and>
   spec_enqueue_vtime_int 10000000 50000000 20000000 True False = 10000000"
proof -
  have v: "scx_dsq_vtime (tasks example_state 11) = 10000000"
          "scx_dsq_vtime (tasks example_state 12) = 40000000"
    and g: "global_vtime example_state = 50000000"
    by (simp_all add: example_state_def example_task_def)
  have n: "task_ctx_stor example_state 11 = None" "task_ctx_stor example_state 12 = None"
    by (simp_all add: example_state_def)
  have t: "is_vectordb_task (tasks example_state 11)" "\<not> is_kworker_task (tasks example_state 11)"
    by (simp_all add: example_state_def example_task_def is_vectordb_task_def
        is_kworker_task_def comm_byte_def)
  have d: "dsqs example_state FALLBACK_DSQ_ID = []" by (simp add: example_state_def)
  have s: "spec_enqueue_vtime 10000000 50000000 20000000 True False = 10000000"
    by (simp add: spec_enqueue_vtime_def vtime_max_code vtime_before_def)
  from enqueue_vtime_every_path [where st = example_state and p = 12 and alloc_ok = False
         and S = 20000000 and f = 0]
       enqueue_vtime_every_path [where st = example_state and p = 11 and alloc_ok = True
         and S = 20000000 and f = 0]
  show ?thesis
    unfolding n v g d Let_def
    by (simp add: t s spec_enqueue_vtime_int_def vtime_max_code vtime_before_def)
qed
section \<open>The global clock at run-start\<close>

lemma cxl_running_tasks: "tasks (cxl_running p st) = tasks st"
  by (simp add: cxl_running_def)

lemma running_all_tasks: "tasks (running_all ps st) = tasks st"
  by (induction ps arbitrary: st) (simp_all add: cxl_running_tasks)

lemma cxl_running_max:
  "global_vtime (cxl_running p st) = vtime_max (scx_dsq_vtime (tasks st p)) (global_vtime st)
   \<or> global_vtime (cxl_running p st) = vtime_max (global_vtime st) (scx_dsq_vtime (tasks st p))"
  by (simp add: cxl_running_def vtime_max_code)

lemma cxl_running_not_before:
  "\<not> vtime_before (global_vtime (cxl_running p st)) (scx_dsq_vtime (tasks st p))"
  by (simp add: cxl_running_def vtime_before_irrefl)

lemma cxl_running_numeric:
  assumes "uint (global_vtime st) < 2 ^ 63" and "uint (scx_dsq_vtime (tasks st p)) < 2 ^ 63"
  shows "uint (global_vtime (cxl_running p st)) =
           max (uint (global_vtime st)) (uint (scx_dsq_vtime (tasks st p)))"
  using vtime_before_uint [OF assms] by (simp add: cxl_running_def max_def)

lemma running_all_numeric:
  assumes "uint (global_vtime st) < 2 ^ 63"
      and "\<forall>p \<in> set ps. uint (scx_dsq_vtime (tasks st p)) < 2 ^ 63"
  shows "uint (global_vtime st) \<le> uint (global_vtime (running_all ps st)) \<and>
         (\<forall>p \<in> set ps. uint (scx_dsq_vtime (tasks st p)) \<le> uint (global_vtime (running_all ps st))) \<and>
         (global_vtime (running_all ps st) = global_vtime st \<or>
          global_vtime (running_all ps st) \<in> (\<lambda>p. scx_dsq_vtime (tasks st p)) ` set ps)"
  using assms
proof (induction ps arbitrary: st)
  case Nil
  then show ?case by simp
next
  case (Cons p ps)
  let ?st1 = "cxl_running p st"
  have v: "uint (scx_dsq_vtime (tasks st p)) < 2 ^ 63" using Cons.prems(2) by simp
  have g1: "uint (global_vtime ?st1) =
              max (uint (global_vtime st)) (uint (scx_dsq_vtime (tasks st p)))"
    by (rule cxl_running_numeric [OF Cons.prems(1) v])
  have b1: "uint (global_vtime ?st1) < 2 ^ 63" using g1 Cons.prems(1) v by simp
  have t1: "tasks ?st1 = tasks st" by (rule cxl_running_tasks)
  have "\<forall>q \<in> set ps. uint (scx_dsq_vtime (tasks ?st1 q)) < 2 ^ 63"
    using Cons.prems(2) t1 by simp
  from Cons.IH [OF b1 this] have ih:
    "uint (global_vtime ?st1) \<le> uint (global_vtime (running_all ps ?st1))"
    "\<forall>q \<in> set ps. uint (scx_dsq_vtime (tasks st q)) \<le> uint (global_vtime (running_all ps ?st1))"
    "global_vtime (running_all ps ?st1) = global_vtime ?st1 \<or>
     global_vtime (running_all ps ?st1) \<in> (\<lambda>q. scx_dsq_vtime (tasks st q)) ` set ps"
    unfolding t1 by blast+
  have c: "global_vtime ?st1 = global_vtime st \<or> global_vtime ?st1 = scx_dsq_vtime (tasks st p)"
    by (simp add: cxl_running_def)
  show ?case
    using ih g1 c by (auto simp: max_def split: if_splits)
qed


text \<open>
  C3, as stated, fails on sequences: the clock is compared by signed difference, so it
  runs around the 64-bit circle. From \<open>2^62\<close>, four run-starts of tasks that are each
  \<open>2^62\<close> ahead of the previous one (the last one one less) leave the clock at
  \<open>2^62 - 1\<close>, below and before where it started.
\<close>

theorem global_vtime_wraps_around:
  "global_vtime cycle_state = 4611686018427387904 \<and>
   global_vtime (running_all [0, 1, 2, 3] cycle_state) = 4611686018427387903 \<and>
   vtime_before (global_vtime (running_all [0, 1, 2, 3] cycle_state)) (global_vtime cycle_state) \<and>
   uint (global_vtime (running_all [0, 1, 2, 3] cycle_state)) < uint (global_vtime cycle_state)"
  by (simp add: cycle_state_def example_task_def cxl_running_def vtime_before_def)

text \<open>
  C3, amended. A run-start sets the clock to the maximum, on the 64-bit clock, of itself
  and the starting task's virtual time; afterwards the clock is not before that virtual
  time; it is not before its old value unless the two were exactly \<open>2^63\<close> apart. Across
  any sequence of run-starts in which the clock and every starting task's virtual time
  are below \<open>2^63\<close>, the clock never decreases: it ends at the largest of the values.
\<close>

theorem global_vtime_run_start:
  "global_vtime (cxl_running p st) = vtime_max (global_vtime st) (scx_dsq_vtime (tasks st p))
   \<and> \<not> vtime_before (global_vtime (cxl_running p st)) (scx_dsq_vtime (tasks st p))
   \<and> (global_vtime st - scx_dsq_vtime (tasks st p) \<noteq> 2 ^ 63 \<longrightarrow>
        \<not> vtime_before (global_vtime (cxl_running p st)) (global_vtime st))
   \<and> (uint (global_vtime st) < 2 ^ 63 \<and>
       (\<forall>q \<in> set ps. uint (scx_dsq_vtime (tasks st q)) < 2 ^ 63) \<longrightarrow>
         uint (global_vtime st) \<le> uint (global_vtime (running_all ps st)) \<and>
         (\<forall>q \<in> set ps. uint (scx_dsq_vtime (tasks st q)) \<le> uint (global_vtime (running_all ps st))) \<and>
         (global_vtime (running_all ps st) = global_vtime st \<or>
          global_vtime (running_all ps st) \<in> (\<lambda>q. scx_dsq_vtime (tasks st q)) ` set ps))"
proof (intro conjI impI)
  show "global_vtime (cxl_running p st) = vtime_max (global_vtime st) (scx_dsq_vtime (tasks st p))"
    by (simp add: cxl_running_def vtime_max_code)
  show "\<not> vtime_before (global_vtime (cxl_running p st)) (scx_dsq_vtime (tasks st p))"
    by (rule cxl_running_not_before)
next
  assume "global_vtime st - scx_dsq_vtime (tasks st p) \<noteq> 2 ^ 63"
  then show "\<not> vtime_before (global_vtime (cxl_running p st)) (global_vtime st)"
    using vtime_before_asym [of "global_vtime st" "scx_dsq_vtime (tasks st p)"]
    by (simp add: cxl_running_def vtime_before_irrefl)
next
  assume a: "uint (global_vtime st) < 2 ^ 63 \<and>
       (\<forall>q \<in> set ps. uint (scx_dsq_vtime (tasks st q)) < 2 ^ 63)"
  then have n: "uint (global_vtime st) \<le> uint (global_vtime (running_all ps st)) \<and>
         (\<forall>p \<in> set ps. uint (scx_dsq_vtime (tasks st p)) \<le> uint (global_vtime (running_all ps st))) \<and>
         (global_vtime (running_all ps st) = global_vtime st \<or>
          global_vtime (running_all ps st) \<in> (\<lambda>p. scx_dsq_vtime (tasks st p)) ` set ps)"
    by (intro running_all_numeric) simp_all
  from n show "uint (global_vtime st) \<le> uint (global_vtime (running_all ps st))" by simp
  from n show "\<forall>q \<in> set ps. uint (scx_dsq_vtime (tasks st q)) \<le> uint (global_vtime (running_all ps st))" by simp
  from n show "global_vtime (running_all ps st) = global_vtime st \<or>
          global_vtime (running_all ps st) \<in> (\<lambda>q. scx_dsq_vtime (tasks st q)) ` set ps" by simp
qed

theorem global_vtime_run_start_witness:
  "global_vtime (cxl_running 13 example_state) = 60000000 \<and>
   global_vtime (cxl_running 11 example_state) = 50000000 \<and>
   global_vtime example_state - scx_dsq_vtime (tasks example_state 13) \<noteq> 2 ^ 63 \<and>
   \<not> vtime_before (global_vtime (cxl_running 13 example_state)) (global_vtime example_state) \<and>
   uint (global_vtime example_state) < 2 ^ 63 \<and>
   uint (scx_dsq_vtime (tasks example_state 11)) < 2 ^ 63 \<and>
   uint (scx_dsq_vtime (tasks example_state 13)) < 2 ^ 63 \<and>
   uint (global_vtime example_state) \<le> uint (global_vtime (running_all [11, 13] example_state)) \<and>
   global_vtime (running_all [11, 13] example_state) = 60000000"
proof -
  have e3: "scx_dsq_vtime (tasks example_state 13) = 60000000"
    and e1: "scx_dsq_vtime (tasks example_state 11) = 10000000"
    and g: "global_vtime example_state = 50000000"
    by (simp_all add: example_state_def example_task_def)
  have b: "vtime_before (50000000 :: u64) 60000000" "\<not> vtime_before (50000000 :: u64) 10000000"
    "\<not> vtime_before (60000000 :: u64) 50000000"
    by (simp_all add: vtime_before_def)
  have r: "global_vtime (running_all [11, 13] example_state) = 60000000"
    by (simp add: cxl_running_def e1 e3 g b cxl_running_tasks)
  show ?thesis
    using global_vtime_run_start [of 13 example_state "[11, 13]"]
          global_vtime_run_start [of 11 example_state "[]"] e1 e3 g b r
    by (simp add: vtime_max_code)
qed


section \<open>The virtual time of a task\<close>










text \<open>
  The order of \<open>vtime_before\<close> is circular, which is why the statement is one of runs
  inside a window: with a slice of 20 ms, a task of weight 1 that uses up its slice is charged
  \<open>2 * 10^9\<close> at each run-stop, and after 4611686019 run-stops its virtual time is before
  the one it started from.
\<close>

lemma cxl_stopping_fields:
  "scx_slice (tasks (cxl_stopping S p r st) p) = scx_slice (tasks st p)"
  "scx_weight (tasks (cxl_stopping S p r st) p) = scx_weight (tasks st p)"
  by (simp_all add: cxl_stopping_def)

lemma cxl_stopping_repeated:
  "scx_dsq_vtime (tasks ((cxl_stopping S p r ^^ n) st) p) =
     scx_dsq_vtime (tasks st p) +
     of_nat n * bpf_udiv ((S - scx_slice (tasks st p)) * 100) (ucast (scx_weight (tasks st p)))
   \<and> scx_slice (tasks ((cxl_stopping S p r ^^ n) st) p) = scx_slice (tasks st p)
   \<and> scx_weight (tasks ((cxl_stopping S p r ^^ n) st) p) = scx_weight (tasks st p)"
proof (induction n)
  case 0
  then show ?case by simp
next
  case (Suc n)
  then show ?case
    by (simp add: cxl_stopping_fields cxl_stopping_def [of S p r "(cxl_stopping S p r ^^ n) st"]
        algebra_simps)
qed

lemma stopping_sequence_wraps:
  assumes "scx_slice (tasks st p) = 0" and "scx_weight (tasks st p) = 1"
  shows "vtime_before (scx_dsq_vtime (tasks ((cxl_stopping 20000000 p r ^^ 4611686019) st) p))
           (scx_dsq_vtime (tasks st p))"
proof -
  have "scx_dsq_vtime (tasks ((cxl_stopping 20000000 p r ^^ 4611686019) st) p) =
          scx_dsq_vtime (tasks st p) + 9223372038000000000"
    using cxl_stopping_repeated [where S = 20000000 and p = p and r = r and n = 4611686019 and st = st] assms
    by (simp add: bpf_udiv_def)
  then show ?thesis by (simp add: vtime_before_def)
qed


end
